theory Spec2Isabelle
  imports Main "HOL-Library.AList"
begin

section \<open>JavaScript values\<close>

text \<open>
  Values that come out of \<^verbatim>\<open>JSON.parse\<close> or go into \<^verbatim>\<open>JSON.stringify\<close>. Strings are
  ASCII; an object is the list of its own properties in insertion order, with distinct
  keys. A JavaScript value that may be \<^verbatim>\<open>undefined\<close> is a \<open>json option\<close>, \<open>None\<close>
  being \<^verbatim>\<open>undefined\<close>.

  A number is \<open>JNum n\<close> when it is an integer \<open>n\<close> of magnitude at most
  \<open>2\<^sup>5\<^sup>3\<close>, which a double holds exactly and \<^verbatim>\<open>String\<close> prints digit by digit
  (zero, with either sign, is \<open>JNum 0\<close>). Any other number, a fraction or a larger
  one, is \<open>JDouble s\<close> with \<open>s\<close> what \<^verbatim>\<open>String\<close> prints for it, such as
  \<^verbatim>\<open>0.5\<close> or \<^verbatim>\<open>1e+21\<close>: the handlers observe of a number only whether it is
  zero and how it prints.
\<close>

datatype json =
    JNull
  | JBool bool
  | JNum int
  | JDouble string
  | JStr string
  | JArr "json list"
  | JObj "(string \<times> json) list"

text \<open>An exception is the message of the thrown error: \<open>Inl msg\<close>.\<close>

type_synonym 'a js = "string + 'a"

text \<open>JavaScript truthiness, as used by \<^verbatim>\<open>!x\<close>, \<^verbatim>\<open>if (x)\<close> and \<^verbatim>\<open>x || y\<close>.\<close>

fun truthy :: "json option \<Rightarrow> bool" where
  "truthy None = False"
| "truthy (Some JNull) = False"
| "truthy (Some (JBool b)) = b"
| "truthy (Some (JNum n)) = (n \<noteq> 0)"
| "truthy (Some (JDouble s)) = True"
| "truthy (Some (JStr s)) = (s \<noteq> [])"
| "truthy (Some (JArr xs)) = True"
| "truthy (Some (JObj kvs)) = True"

text \<open>A string-typed value that may be missing: falsy when missing or empty.\<close>

fun truthy_str :: "string option \<Rightarrow> bool" where
  "truthy_str None = False"
| "truthy_str (Some s) = (s \<noteq> [])"

text \<open>\<^verbatim>\<open>a || b\<close>\<close>

definition js_or :: "json option \<Rightarrow> json option \<Rightarrow> json option" where
  "js_or a b = (if truthy a then a else b)"

text \<open>Decimal rendering of a number inside a template string or \<^verbatim>\<open>String(n)\<close>.\<close>

fun decimal :: "nat \<Rightarrow> string" where
  "decimal n =
     (if n < 10 then [''0123456789'' ! n]
      else decimal (n div 10) @ [''0123456789'' ! (n mod 10)])"

definition decimal_int :: "int \<Rightarrow> string" where
  "decimal_int i = (if i < 0 then ''-'' @ decimal (nat (- i)) else decimal (nat i))"

fun join_commas :: "string list \<Rightarrow> string" where
  "join_commas [] = []"
| "join_commas [s] = s"
| "join_commas (s # t # ss) = s @ '','' @ join_commas (t # ss)"

text \<open>The first exception of a sequence of evaluations, or all their values.\<close>

fun first_error :: "('a js) list \<Rightarrow> ('a list) js" where
  "first_error [] = Inr []"
| "first_error (Inl msg # rs) = Inl msg"
| "first_error (Inr v # rs) =
     (case first_error rs of Inl msg \<Rightarrow> Inl msg | Inr vs \<Rightarrow> Inr (v # vs))"

text \<open>
  \<^verbatim>\<open>String(v)\<close>, also the conversion inside a template string: a string is itself; an
  array is its elements joined by commas, with \<^verbatim>\<open>null\<close> elements rendered empty; an
  object is \<^verbatim>\<open>[object Object]\<close>, unless it has a property \<^verbatim>\<open>toString\<close> of its own,
  which as JSON is no function: then the conversion throws a \<^verbatim>\<open>TypeError\<close>.
\<close>

fun String_js :: "json \<Rightarrow> string js" where
  "String_js JNull = Inr ''null''"
| "String_js (JBool b) = Inr (if b then ''true'' else ''false'')"
| "String_js (JNum n) = Inr (decimal_int n)"
| "String_js (JDouble s) = Inr s"
| "String_js (JStr s) = Inr s"
| "String_js (JArr xs) =
     (case first_error (map (\<lambda>x. if x = JNull then Inr [] else String_js x) xs) of
        Inl msg \<Rightarrow> Inl msg
      | Inr ss \<Rightarrow> Inr (join_commas ss))"
| "String_js (JObj kvs) =
     (if map_of kvs ''toString'' = None then Inr ''[object Object]''
      else Inl ''Cannot convert object to primitive value'')"

text \<open>
  Reading the property \<open>k\<close> of a value that is neither \<^verbatim>\<open>undefined\<close> nor
  \<^verbatim>\<open>null\<close>: the own property of an object, \<^verbatim>\<open>undefined\<close> on anything else (the
  handlers read only fixed, non-index, non-builtin names this way).
\<close>

fun prop_of :: "json \<Rightarrow> string \<Rightarrow> json option" where
  "prop_of (JObj kvs) k = map_of kvs k"
| "prop_of v k = None"

text \<open>\<^verbatim>\<open>v.k\<close> in general: a \<^verbatim>\<open>TypeError\<close> on \<^verbatim>\<open>undefined\<close> and \<^verbatim>\<open>null\<close>.\<close>

fun get_prop :: "json option \<Rightarrow> string \<Rightarrow> (json option) js" where
  "get_prop None k =
     Inl (''Cannot read properties of undefined (reading '' @ [CHR 0x27] @ k @ [CHR 0x27] @ '')'')"
| "get_prop (Some JNull) k =
     Inl (''Cannot read properties of null (reading '' @ [CHR 0x27] @ k @ [CHR 0x27] @ '')'')"
| "get_prop (Some v) k = Inr (prop_of v k)"

text \<open>\<^verbatim>\<open>v?.k\<close>\<close>

fun opt_chain :: "json option \<Rightarrow> string \<Rightarrow> json option" where
  "opt_chain None k = None"
| "opt_chain (Some JNull) k = None"
| "opt_chain (Some v) k = prop_of v k"

text \<open>
  \<^verbatim>\<open>v.length\<close>: the length of an array or a string, the own property of that name of
  an object, \<^verbatim>\<open>undefined\<close> otherwise.
\<close>

fun js_length :: "json \<Rightarrow> json option" where
  "js_length (JArr xs) = Some (JNum (int (length xs)))"
| "js_length (JStr s) = Some (JNum (int (length s)))"
| "js_length (JObj kvs) = map_of kvs ''length''"
| "js_length v = None"

text \<open>\<^verbatim>\<open>${v.length}\<close> inside a template string.\<close>

definition length_text :: "json \<Rightarrow> string js" where
  "length_text v = (case js_length v of None \<Rightarrow> Inr ''undefined'' | Some n \<Rightarrow> String_js n)"

text \<open>
  Object spread \<^verbatim>\<open>{ ...v }\<close>: the own enumerable properties of \<open>v\<close>. An object gives
  its properties, an array and a string their indexed elements, anything else nothing.
\<close>

fun indexed :: "nat \<Rightarrow> json list \<Rightarrow> (string \<times> json) list" where
  "indexed i [] = []"
| "indexed i (x # xs) = (decimal i, x) # indexed (Suc i) xs"

fun spread :: "json option \<Rightarrow> (string \<times> json) list" where
  "spread (Some (JObj kvs)) = kvs"
| "spread (Some (JArr xs)) = indexed 0 xs"
| "spread (Some (JStr s)) = indexed 0 (map (\<lambda>c. JStr [c]) s)"
| "spread v = []"

section \<open>Dates\<close>

text \<open>
  A \<^verbatim>\<open>Date\<close> is the fields of its ISO-8601 rendering; the runtime's time zone is UTC, so
  \<^verbatim>\<open>getFullYear\<close> and \<^verbatim>\<open>getMonth\<close> read those fields, and
  \<^verbatim>\<open>new Date(d.toISOString())\<close> is \<open>d\<close> again. A timestamp of a stored record is kept as
  the \<open>date\<close> it denotes.
\<close>

record date =
  iso_year :: int
  iso_month :: nat
  iso_day :: nat
  iso_hour :: nat
  iso_minute :: nat
  iso_second :: nat
  iso_milli :: nat

definition getFullYear :: "date \<Rightarrow> int" where
  "getFullYear d = iso_year d"

text \<open>\<^verbatim>\<open>getMonth()\<close> counts from 0; \<open>iso_month\<close> is 1 to 12.\<close>

definition getMonth :: "date \<Rightarrow> int" where
  "getMonth d = int (iso_month d) - 1"

definition pad :: "nat \<Rightarrow> string \<Rightarrow> string" where
  "pad w s = replicate (w - length s) (CHR ''0'') @ s"

definition toISOString :: "date \<Rightarrow> string" where
  "toISOString d =
     (if 0 \<le> iso_year d \<and> iso_year d \<le> 9999 then pad 4 (decimal (nat (iso_year d)))
      else (if iso_year d < 0 then ''-'' else ''+'') @ pad 6 (decimal (nat \<bar>iso_year d\<bar>)))
     @ ''-'' @ pad 2 (decimal (iso_month d)) @ ''-'' @ pad 2 (decimal (iso_day d))
     @ ''T'' @ pad 2 (decimal (iso_hour d)) @ '':'' @ pad 2 (decimal (iso_minute d))
     @ '':'' @ pad 2 (decimal (iso_second d)) @ ''.'' @ pad 3 (decimal (iso_milli d)) @ ''Z''"

section \<open>The stored user record\<close>

text \<open>
  \<^verbatim>\<open>USERS_KV\<close> maps an email to \<^verbatim>\<open>JSON.stringify(userData)\<close>. Every writer of the
  store is a handler below and writes an object of the shape created by
  \<^verbatim>\<open>handleRegister\<close>, so the stored string is kept as the record it serialises and
  \<^verbatim>\<open>JSON.parse\<close> of it returns that record. The four properties added by the payment
  webhook are absent (\<open>None\<close>) until assigned; assigning \<^verbatim>\<open>undefined\<close> leaves them
  absent after serialisation.
\<close>

record userData =
  email :: string
  password_hash :: string
  subscription_status :: string
  monthly_searches :: int
  created_at :: date
  last_reset :: date
  stripe_customer_id :: "json option"
  subscription_id :: "json option"
  upgraded_at :: "date option"
  last_payment :: "date option"

text \<open>The own properties of \<^verbatim>\<open>userData\<close>, as \<^verbatim>\<open>JSON.stringify\<close> sees them.\<close>

definition optional :: "string \<Rightarrow> json option \<Rightarrow> (string \<times> json) list" where
  "optional k v = (case v of None \<Rightarrow> [] | Some x \<Rightarrow> [(k, x)])"

definition properties :: "userData \<Rightarrow> (string \<times> json) list" where
  "properties u =
     [(''email'', JStr (email u)),
      (''password_hash'', JStr (password_hash u)),
      (''subscription_status'', JStr (subscription_status u)),
      (''monthly_searches'', JNum (monthly_searches u)),
      (''created_at'', JStr (toISOString (created_at u))),
      (''last_reset'', JStr (toISOString (last_reset u)))]
     @ optional ''stripe_customer_id'' (stripe_customer_id u)
     @ optional ''subscription_id'' (subscription_id u)
     @ optional ''upgraded_at'' (map_option (\<lambda>d. JStr (toISOString d)) (upgraded_at u))
     @ optional ''last_payment'' (map_option (\<lambda>d. JStr (toISOString d)) (last_payment u))"

text \<open>\<^verbatim>\<open>const { password_hash, ...safeUserData } = userData\<close>\<close>

definition safeUserData :: "userData \<Rightarrow> (string \<times> json) list" where
  "safeUserData u = AList.delete ''password_hash'' (properties u)"

section \<open>The world around a handler\<close>

text \<open>An outgoing \<^verbatim>\<open>fetch\<close>: URL, method, headers and JSON body.\<close>

record request =
  url :: string
  http_method :: string
  headers :: "(string \<times> string) list"
  payload :: "json option"

text \<open>
  What a \<^verbatim>\<open>fetch\<close> gives back: it throws (transport failure), or it resolves to a
  response with a status, whose \<^verbatim>\<open>json()\<close> throws or yields a value.
\<close>

datatype fetched =
    Failed string
  | Fetched nat "json js"

text \<open>\<^verbatim>\<open>response.ok\<close>\<close>

definition ok :: "nat \<Rightarrow> bool" where
  "ok code = (200 \<le> code \<and> code \<le> 299)"

text \<open>
  The environment of a request: the configured secrets, the answers of the remote
  services, the platform's SHA-256 (as lower-case hex) and \<^verbatim>\<open>JSON.parse\<close>, the HTML
  formatting of the result email (\<open>Inl\<close> when it throws), which is not described
  further, and what the store binding makes of a key that is not a string (some key, or
  \<open>None\<close> when the call throws).
\<close>

record ctx =
  BREVO_API_KEY :: "string option"
  SENDER_EMAIL :: "string option"
  fetch :: "request \<Rightarrow> fetched"
  sha256_hex :: "string \<Rightarrow> string"
  JSON_parse :: "string \<Rightarrow> json js"
  emailContent :: "json \<Rightarrow> (string \<times> json) list \<Rightarrow> string js"
  non_string_key :: "json \<Rightarrow> string option"

text \<open>What a handler does to the outside, in order.\<close>

datatype effect =
    Put string userData
  | Fetch request

text \<open>The store and the effects so far.\<close>

record state =
  USERS_KV :: "string \<rightharpoonup> userData"
  effects :: "effect list"

definition kv_put :: "string \<Rightarrow> userData \<Rightarrow> state \<Rightarrow> state" where
  "kv_put k u st = st\<lparr>USERS_KV := (USERS_KV st)(k \<mapsto> u), effects := effects st @ [Put k u]\<rparr>"

definition do_fetch :: "ctx \<Rightarrow> request \<Rightarrow> state \<Rightarrow> fetched \<times> state" where
  "do_fetch c r st = (fetch c r, st\<lparr>effects := effects st @ [Fetch r]\<rparr>)"

text \<open>An HTTP response: status and body (the CORS headers are the same on all).\<close>

datatype body = Text string | Json json

record response =
  status :: nat
  content :: body

definition json_response :: "nat \<Rightarrow> (string \<times> json) list \<Rightarrow> response" where
  "json_response code kvs = \<lparr>status = code, content = Json (JObj kvs)\<rparr>"

definition error_response :: "nat \<Rightarrow> string \<Rightarrow> response" where
  "error_response code msg = json_response code [(''error'', JStr msg)]"

section \<open>The account API: \<^verbatim>\<open>functions/api/search.js\<close>\<close>

text \<open>
  The handlers take the \<^verbatim>\<open>email\<close> and \<^verbatim>\<open>password\<close> of the request body as strings
  that may be missing, and \<^verbatim>\<open>criteria\<close> as any JSON value that may be missing. Each
  returns its response and the state it leaves. The store answers every \<^verbatim>\<open>get\<close> and
  \<^verbatim>\<open>put\<close>. A handler that reads the clock takes the reading as an argument.
\<close>

definition hashPassword :: "ctx \<Rightarrow> string \<Rightarrow> string" where
  "hashPassword c password = sha256_hex c password"

definition verifyPassword :: "ctx \<Rightarrow> string \<Rightarrow> string \<Rightarrow> bool" where
  "verifyPassword c password hash = (hashPassword c password = hash)"

text \<open>
  \<^verbatim>\<open>handleRegister\<close> reads the clock twice, for \<^verbatim>\<open>created_at\<close> and for
  \<^verbatim>\<open>last_reset\<close>.
\<close>

fun handleRegister ::
  "ctx \<Rightarrow> date \<Rightarrow> date \<Rightarrow> state \<Rightarrow> string option \<Rightarrow> string option \<Rightarrow> response \<times> state" where
  "handleRegister c now1 now2 st (Some e) (Some password) =
     (if e = [] \<or> password = [] then (error_response 400 ''Email and password required'', st)
      else case USERS_KV st e of
        Some existingUser \<Rightarrow> (error_response 400 ''User already exists'', st)
      | None \<Rightarrow>
          let hashedPassword = hashPassword c password;
              u = \<lparr>email = e,
                   password_hash = hashedPassword,
                   subscription_status = ''free'',
                   monthly_searches = 0,
                   created_at = now1,
                   last_reset = now2,
                   stripe_customer_id = None,
                   subscription_id = None,
                   upgraded_at = None,
                   last_payment = None\<rparr>;
              st' = kv_put e u st
          in (json_response 200
                [(''success'', JBool True),
                 (''message'', JStr ''Registration successful''),
                 (''user'', JObj (safeUserData u))], st'))"
| "handleRegister c now1 now2 st em pw =
     (error_response 400 ''Email and password required'', st)"

text \<open>
  \<^verbatim>\<open>handleLogin\<close> reads the clock once, after the password check. Every stored record
  has its \<^verbatim>\<open>last_reset\<close>, so \<^verbatim>\<open>userData.last_reset || userData.created_at\<close> is
  \<open>last_reset\<close>.
\<close>

fun handleLogin ::
  "ctx \<Rightarrow> date \<Rightarrow> state \<Rightarrow> string option \<Rightarrow> string option \<Rightarrow> response \<times> state" where
  "handleLogin c now st (Some e) (Some password) =
     (if e = [] \<or> password = [] then (error_response 400 ''Email and password required'', st)
      else case USERS_KV st e of
        None \<Rightarrow> (error_response 401 ''Invalid credentials'', st)
      | Some u \<Rightarrow>
          if \<not> verifyPassword c password (password_hash u)
          then (error_response 401 ''Invalid credentials'', st)
          else
            let lastReset = last_reset u;
                rolled = (getMonth now \<noteq> getMonth lastReset
                          \<or> getFullYear now \<noteq> getFullYear lastReset);
                u' = (if rolled then u\<lparr>monthly_searches := 0, last_reset := now\<rparr> else u);
                st' = (if rolled then kv_put e u' st else st)
            in (json_response 200
                  [(''success'', JBool True),
                   (''message'', JStr ''Login successful''),
                   (''user'', JObj (safeUserData u'))], st'))"
| "handleLogin c now st em pw =
     (error_response 400 ''Email and password required'', st)"

text \<open>Lines 176 to 178: the tier and its limits.\<close>

definition isFreeTier :: "userData \<Rightarrow> bool" where
  "isFreeTier u = (subscription_status u \<noteq> ''active'')"

definition maxSearches :: "userData \<Rightarrow> int" where
  "maxSearches u = (if isFreeTier u then 5 else 15)"

definition maxAbstracts :: "userData \<Rightarrow> int" where
  "maxAbstracts u = (if isFreeTier u then 3 else 10)"

text \<open>The body of the 429 response.\<close>

definition limit_reached :: "userData \<Rightarrow> response" where
  "limit_reached u =
     error_response 429
       (''Search limit reached. ''
        @ (if isFreeTier u then ''Free users get 5 searches/month''
           else ''Pro users get 15 searches/month'')
        @ ''. Upgrade for more!'')"

text \<open>
  Lines 190 to 198: the criteria sent to the NIH API, or the exception of
  \<^verbatim>\<open>String(searchCriteria.text_search)\<close>.
\<close>

definition searchCriteria :: "json option \<Rightarrow> ((string \<times> json) list) js" where
  "searchCriteria criteria =
     (let sc = spread criteria
      in case map_of sc ''text_search'' of
           None \<Rightarrow> Inr sc
         | Some t \<Rightarrow>
             if truthy (Some t)
             then (case String_js t of
                     Inl msg \<Rightarrow> Inl msg
                   | Inr search_text \<Rightarrow>
                       Inr (AList.delete ''text_search''
                              (AList.update ''advanced_text_search''
                                 (JObj [(''operator'', JStr ''and''),
                                        (''search_field'',
                                           JStr ''projecttitle,terms,abstracttext''),
                                        (''search_text'', JStr search_text)]) sc)))
             else Inr sc)"

definition nihPayload :: "(string \<times> json) list \<Rightarrow> int \<Rightarrow> json" where
  "nihPayload sc lim =
     JObj [(''criteria'', JObj sc),
           (''sort_field'', JStr ''project_start_date''),
           (''sort_order'', JStr ''desc''),
           (''offset'', JNum 0),
           (''limit'', JNum lim)]"

definition nihRequest :: "json \<Rightarrow> request" where
  "nihRequest p =
     \<lparr>url = ''https://api.reporter.nih.gov/v2/projects/search'',
      http_method = ''POST'',
      headers = [(''Content-Type'', ''application/json'')],
      payload = Some p\<rparr>"

text \<open>
  \<^verbatim>\<open>sendSearchResultsEmail\<close>: every exception inside is caught and gives \<^verbatim>\<open>false\<close>.
  The subject starts with the four UTF-8 bytes of the microscope sign.
\<close>

definition sendSearchResultsEmail ::
  "ctx \<Rightarrow> string \<Rightarrow> json \<Rightarrow> (string \<times> json) list \<Rightarrow> state \<Rightarrow> bool \<times> state" where
  "sendSearchResultsEmail c e projects criteria st =
     (case BREVO_API_KEY c of
        None \<Rightarrow> (False, st)
      | Some brevoApiKey \<Rightarrow>
         (case SENDER_EMAIL c of
            None \<Rightarrow> (False, st)
          | Some senderEmail \<Rightarrow>
              if brevoApiKey = [] \<or> senderEmail = [] then (False, st)
              else
                let (testResponse, st1) =
                      do_fetch c \<lparr>url = ''https://api.brevo.com/v3/account'',
                                  http_method = ''GET'',
                                  headers = [(''api-key'', brevoApiKey)],
                                  payload = None\<rparr> st
                in (case testResponse of
                      Failed msg \<Rightarrow> (False, st1)
                    | Fetched code b \<Rightarrow>
                        if \<not> ok code then (False, st1)
                        else
                          (case emailContent c projects criteria of
                             Inl msg \<Rightarrow> (False, st1)
                           | Inr html \<Rightarrow>
                              (case length_text projects of
                                 Inl msg \<Rightarrow> (False, st1)
                               | Inr n \<Rightarrow>
                                   let emailPayload =
                                         JObj [(''sender'',
                                                  JObj [(''email'', JStr senderEmail),
                                                        (''name'', JStr ''NIH RePORTER Scoop'')]),
                                               (''to'', JArr [JObj [(''email'', JStr e)]]),
                                               (''subject'',
                                                  JStr ([CHR 0xF0, CHR 0x9F, CHR 0x94, CHR 0xAC]
                                                        @ '' Your NIH Research Results (''
                                                        @ n @ '' projects found)'')),
                                               (''htmlContent'', JStr html)];
                                       (emailResponse, st2) =
                                         do_fetch c
                                           \<lparr>url = ''https://api.brevo.com/v3/smtp/email'',
                                            http_method = ''POST'',
                                            headers = [(''Content-Type'', ''application/json''),
                                                       (''api-key'', brevoApiKey)],
                                            payload = Some emailPayload\<rparr> st1
                                   in (case emailResponse of
                                         Failed msg \<Rightarrow> (False, st2)
                                       | Fetched code' b' \<Rightarrow> (ok code', st2)))))))"

text \<open>
  The body of a successful search, or the exception of the conversion of
  \<^verbatim>\<open>projects.length\<close> in the message; \<^verbatim>\<open>results_count\<close> is dropped when it is
  \<^verbatim>\<open>undefined\<close>.
\<close>

definition search_success :: "bool \<Rightarrow> userData \<Rightarrow> json \<Rightarrow> response js" where
  "search_success emailSent u projects =
     (case length_text projects of
        Inl msg \<Rightarrow> Inl msg
      | Inr n \<Rightarrow>
          if \<not> emailSent
          then Inr (json_response 200
                 ([(''success'', JBool True),
                   (''message'', JStr (''Search completed! '' @ n
                      @ '' results found (email delivery failed - please check your email configuration)'')),
                   (''user'', JObj (safeUserData u))]
                  @ optional ''results_count'' (js_length projects)
                  @ [(''warning'', JStr ''Email delivery failed'')]))
          else Inr (json_response 200
                 ([(''success'', JBool True),
                   (''message'', JStr (''Search completed! '' @ n
                      @ '' results sent to your email'')),
                   (''user'', JObj (safeUserData u))]
                  @ optional ''results_count'' (js_length projects))))"

text \<open>
  \<^verbatim>\<open>handleSearch\<close>: everything after the first guard runs inside \<^verbatim>\<open>try\<close>, and an
  exception gives the 500 response with the state reached so far.
\<close>

fun handleSearch ::
  "ctx \<Rightarrow> state \<Rightarrow> string option \<Rightarrow> json option \<Rightarrow> response \<times> state" where
  "handleSearch c st (Some e) criteria =
     (if e = [] \<or> \<not> truthy criteria
      then (error_response 400 ''Email and search criteria required'', st)
      else
       (case USERS_KV st e of
          None \<Rightarrow> (error_response 404 ''User not found'', st)
        | Some u \<Rightarrow>
            if monthly_searches u \<ge> maxSearches u
            then (limit_reached u, st)
            else
             (case searchCriteria criteria of
                Inl msg \<Rightarrow> (error_response 500 (''Search failed: '' @ msg), st)
              | Inr sc \<Rightarrow>
                  let (nihResponse, st1) =
                        do_fetch c (nihRequest (nihPayload sc (maxAbstracts u))) st
                  in (case nihResponse of
                        Failed msg \<Rightarrow> (error_response 500 (''Search failed: '' @ msg), st1)
                      | Fetched code b \<Rightarrow>
                          if \<not> ok code
                          then (error_response 500
                                  (''Search failed: '' @ ''NIH API error: '' @ decimal code), st1)
                          else
                           (case b of
                              Inl msg \<Rightarrow> (error_response 500 (''Search failed: '' @ msg), st1)
                            | Inr nihData \<Rightarrow>
                               (case get_prop (Some nihData) ''results'' of
                                  Inl msg \<Rightarrow>
                                    (error_response 500 (''Search failed: '' @ msg), st1)
                                | Inr results \<Rightarrow>
                                    let projects = (case js_or results (Some (JArr [])) of
                                                      Some p \<Rightarrow> p | None \<Rightarrow> JArr []);
                                        u' = u\<lparr>monthly_searches := monthly_searches u + 1\<rparr>;
                                        st2 = kv_put e u' st1;
                                        (emailSent, st3) =
                                          sendSearchResultsEmail c e projects sc st2
                                    in (case search_success emailSent u' projects of
                                          Inl msg \<Rightarrow>
                                            (error_response 500 (''Search failed: '' @ msg), st3)
                                        | Inr r \<Rightarrow> (r, st3))))))))"
| "handleSearch c st None criteria =
     (error_response 400 ''Email and search criteria required'', st)"

text \<open>
  \<^verbatim>\<open>handleReset\<close> has no guard on \<^verbatim>\<open>email\<close>: a missing one reaches the store, which
  reads it as the key \<^verbatim>\<open>undefined\<close>; on the empty key the store throws, and the handler
  answers 500.
\<close>

definition handleReset :: "date \<Rightarrow> state \<Rightarrow> string option \<Rightarrow> response \<times> state" where
  "handleReset now st em =
     (let key = (case em of None \<Rightarrow> ''undefined'' | Some e \<Rightarrow> e)
      in if key = [] then (error_response 500 ''Reset failed'', st)
         else
          (case USERS_KV st key of
             None \<Rightarrow> (error_response 404 ''User not found'', st)
           | Some u \<Rightarrow>
               let u' = u\<lparr>monthly_searches := 0, last_reset := now\<rparr>;
                   st' = kv_put key u' st
               in (json_response 200
                     [(''success'', JBool True),
                      (''message'', JStr ''Search counter reset successfully''),
                      (''user'', JObj (safeUserData u'))], st')))"

section \<open>The payment webhook: \<^verbatim>\<open>functions/api/payment/webhook.js\<close>\<close>

text \<open>The key under which the store looks a value up.\<close>

definition kv_key :: "ctx \<Rightarrow> json \<Rightarrow> string option" where
  "kv_key c v = (case v of JStr s \<Rightarrow> Some s | _ \<Rightarrow> non_string_key c v)"

text \<open>
  The three event handlers catch every exception and return nothing: each gives the
  state it leaves. Reading a property of a missing or \<^verbatim>\<open>null\<close> event object throws
  inside the \<^verbatim>\<open>try\<close>, before any effect.
\<close>

fun handleCheckoutCompleted :: "ctx \<Rightarrow> date \<Rightarrow> state \<Rightarrow> json option \<Rightarrow> state" where
  "handleCheckoutCompleted c now st None = st"
| "handleCheckoutCompleted c now st (Some JNull) = st"
| "handleCheckoutCompleted c now st (Some session) =
     (let customerEmail = js_or (prop_of session ''customer_email'')
                                (opt_chain (prop_of session ''metadata'') ''user_email'')
      in if \<not> truthy customerEmail then st
         else
          (case customerEmail of
             None \<Rightarrow> st
           | Some ce \<Rightarrow>
              (case kv_key c ce of
                 None \<Rightarrow> st
               | Some k \<Rightarrow>
                  (case USERS_KV st k of
                     None \<Rightarrow> st
                   | Some u \<Rightarrow>
                       kv_put k (u\<lparr>subscription_status := ''active'',
                                    stripe_customer_id := prop_of session ''customer'',
                                    subscription_id := prop_of session ''subscription'',
                                    upgraded_at := Some now\<rparr>) st))))"

fun handlePaymentSucceeded :: "ctx \<Rightarrow> date \<Rightarrow> state \<Rightarrow> json option \<Rightarrow> state" where
  "handlePaymentSucceeded c now st None = st"
| "handlePaymentSucceeded c now st (Some JNull) = st"
| "handlePaymentSucceeded c now st (Some invoice) =
     (let customerEmail = prop_of invoice ''customer_email''
      in if \<not> truthy customerEmail then st
         else
          (case customerEmail of
             None \<Rightarrow> st
           | Some ce \<Rightarrow>
              (case kv_key c ce of
                 None \<Rightarrow> st
               | Some k \<Rightarrow>
                  (case USERS_KV st k of
                     None \<Rightarrow> st
                   | Some u \<Rightarrow>
                       kv_put k (u\<lparr>subscription_status := ''active'',
                                    last_payment := Some now\<rparr>) st))))"

definition handleSubscriptionCancelled :: "ctx \<Rightarrow> state \<Rightarrow> json option \<Rightarrow> state" where
  "handleSubscriptionCancelled c st subscription = st"

text \<open>The incoming webhook request, with the \<^verbatim>\<open>Stripe-Signature\<close> header.\<close>

record webhook_request =
  req_method :: string
  req_body :: string
  stripe_signature :: "string option"

text \<open>\<^verbatim>\<open>payload.data.object\<close>\<close>

definition data_object :: "json \<Rightarrow> (json option) js" where
  "data_object p =
     (case get_prop (Some p) ''data'' of
        Inl msg \<Rightarrow> Inl msg
      | Inr d \<Rightarrow> get_prop d ''object'')"

definition received :: response where
  "received = json_response 200 [(''received'', JBool True)]"

definition onRequest :: "ctx \<Rightarrow> date \<Rightarrow> state \<Rightarrow> webhook_request \<Rightarrow> response \<times> state" where
  "onRequest c now st r =
     (if req_method r = ''OPTIONS'' then (\<lparr>status = 200, content = Text []\<rparr>, st)
      else if req_method r \<noteq> ''POST''
      then (\<lparr>status = 405, content = Text ''Method not allowed''\<rparr>, st)
      else
        let sig = stripe_signature r
        in (case JSON_parse c (req_body r) of
              Inl msg \<Rightarrow> (error_response 400 ''Webhook failed'', st)
            | Inr p \<Rightarrow>
               (case get_prop (Some p) ''type'' of
                  Inl msg \<Rightarrow> (error_response 400 ''Webhook failed'', st)
                | Inr ty \<Rightarrow>
                    if ty = Some (JStr ''checkout.session.completed'')
                    then (case data_object p of
                            Inl msg \<Rightarrow> (error_response 400 ''Webhook failed'', st)
                          | Inr ob \<Rightarrow> (received, handleCheckoutCompleted c now st ob))
                    else if ty = Some (JStr ''invoice.payment_succeeded'')
                    then (case data_object p of
                            Inl msg \<Rightarrow> (error_response 400 ''Webhook failed'', st)
                          | Inr ob \<Rightarrow> (received, handlePaymentSucceeded c now st ob))
                    else if ty = Some (JStr ''customer.subscription.deleted'')
                    then (case data_object p of
                            Inl msg \<Rightarrow> (error_response 400 ''Webhook failed'', st)
                          | Inr ob \<Rightarrow> (received, handleSubscriptionCancelled c st ob))
                    else (received, st))))"

section \<open>Properties of the handlers, stated\<close>

text \<open>The search collaborator failed: no response at all, or one that is not 2xx.\<close>

fun upstream_failed :: "fetched \<Rightarrow> bool" where
  "upstream_failed (Failed msg) = True"
| "upstream_failed (Fetched code b) = (\<not> ok code)"

text \<open>
  A response exposes the password hash when its JSON body, or the \<^verbatim>\<open>user\<close> object in
  it, has a property \<^verbatim>\<open>password_hash\<close>.
\<close>

definition has_property :: "string \<Rightarrow> (string \<times> json) list \<Rightarrow> bool" where
  "has_property k kvs = (map_of kvs k \<noteq> None)"

fun exposes_hash :: "body \<Rightarrow> bool" where
  "exposes_hash (Json (JObj kvs)) =
     (has_property ''password_hash'' kvs
      \<or> (case map_of kvs ''user'' of
            Some (JObj us) \<Rightarrow> has_property ''password_hash'' us
          | _ \<Rightarrow> False))"
| "exposes_hash b = False"

text \<open>
  The steps of a search after a parsed answer \<open>d\<close> of the NIH API: the projects
  (\<^verbatim>\<open>nihData.results || []\<close>), the record with the search counted, and the run of
  the notifier on the state that holds the request and the write of that record.
\<close>

definition projects_of :: "json \<Rightarrow> json" where
  "projects_of d =
     (case js_or (prop_of d ''results'') (Some (JArr [])) of Some p \<Rightarrow> p | None \<Rightarrow> JArr [])"

definition counted :: "userData \<Rightarrow> userData" where
  "counted u = u\<lparr>monthly_searches := monthly_searches u + 1\<rparr>"

definition notified ::
  "ctx \<Rightarrow> state \<Rightarrow> string \<Rightarrow> userData \<Rightarrow> (string \<times> json) list \<Rightarrow> json \<Rightarrow> bool \<times> state" where
  "notified c st e u sc d =
     sendSearchResultsEmail c e (projects_of d) sc
       (kv_put e (counted u)
          (snd (do_fetch c (nihRequest (nihPayload sc (maxAbstracts u))) st)))"

text \<open>The answer carries a result set: \<^verbatim>\<open>results\<close> is an array, or missing or null.\<close>

fun result_set :: "json option \<Rightarrow> bool" where
  "result_set None = True"
| "result_set (Some JNull) = True"
| "result_set (Some (JArr xs)) = True"
| "result_set (Some v) = False"

text \<open>The property \<open>k\<close> of a JSON response body.\<close>

definition body_property :: "response \<Rightarrow> string \<Rightarrow> json option" where
  "body_property r k = (case content r of Json j \<Rightarrow> prop_of j k | Text t \<Rightarrow> None)"

text \<open>
  The record a checkout event addresses: the store key made of its customer email,
  when the event has one the store accepts.
\<close>

fun checkout_key :: "ctx \<Rightarrow> json option \<Rightarrow> string option" where
  "checkout_key c None = None"
| "checkout_key c (Some JNull) = None"
| "checkout_key c (Some session) =
     (case js_or (prop_of session ''customer_email'')
                 (opt_chain (prop_of session ''metadata'') ''user_email'') of
        None \<Rightarrow> None
      | Some ce \<Rightarrow> if truthy (Some ce) then kv_key c ce else None)"

text \<open>What the checkout handler assigns to the record it found.\<close>

definition activated :: "date \<Rightarrow> json option \<Rightarrow> userData \<Rightarrow> userData" where
  "activated now ob u =
     u\<lparr>subscription_status := ''active'',
       stripe_customer_id := (case ob of Some session \<Rightarrow> prop_of session ''customer''
                                       | None \<Rightarrow> None),
       subscription_id := (case ob of Some session \<Rightarrow> prop_of session ''subscription''
                                    | None \<Rightarrow> None),
       upgraded_at := Some now\<rparr>"

text \<open>The stored records with the one property \<^verbatim>\<open>upgraded_at\<close> blanked.\<close>

definition without_upgraded_at :: "(string \<rightharpoonup> userData) \<Rightarrow> (string \<rightharpoonup> userData)" where
  "without_upgraded_at kv = (\<lambda>k. map_option (\<lambda>u. u\<lparr>upgraded_at := None\<rparr>) (kv k))"

section \<open>Concrete inputs\<close>

definition jan15 :: date where
  "jan15 = \<lparr>iso_year = 2024, iso_month = 1, iso_day = 15, iso_hour = 9, iso_minute = 30,
            iso_second = 0, iso_milli = 0\<rparr>"

definition feb01 :: date where
  "feb01 = \<lparr>iso_year = 2024, iso_month = 2, iso_day = 1, iso_hour = 8, iso_minute = 0,
            iso_second = 0, iso_milli = 250\<rparr>"

text \<open>A free account registered and last reset in January 2024, with \<open>n\<close> searches.\<close>

definition alice :: "int \<Rightarrow> userData" where
  "alice n =
     \<lparr>email = ''a@x.com'', password_hash = ''sha256:pw'', subscription_status = ''free'',
      monthly_searches = n, created_at = jan15, last_reset = jan15,
      stripe_customer_id = None, subscription_id = None, upgraded_at = None,
      last_payment = None\<rparr>"

definition store :: "userData \<Rightarrow> state" where
  "store u = \<lparr>USERS_KV = [email u \<mapsto> u], effects = []\<rparr>"

definition two_results :: json where
  "two_results =
     JObj [(''results'', JArr [JObj [(''project_title'', JStr ''A'')],
                               JObj [(''project_title'', JStr ''B'')]])]"

text \<open>The body of a forged webhook call, and what \<^verbatim>\<open>JSON.parse\<close> makes of it.\<close>

definition forged_body :: string where
  "forged_body = ''{\"type\":\"checkout.session.completed\",\"data\":{\"object\":{\"customer_email\":\"a@x.com\"}}}''"

definition forged_payload :: json where
  "forged_payload =
     JObj [(''type'', JStr ''checkout.session.completed''),
           (''data'', JObj [(''object'', JObj [(''customer_email'', JStr ''a@x.com'')])])]"

text \<open>
  An environment in which the NIH API answers \<open>nih\<close>, the mail service accepts the key
  and answers the send with the status \<open>sent\<close>; the email is formatted for an array of
  projects, and the formatting throws on anything else.
\<close>

definition world :: "fetched \<Rightarrow> nat \<Rightarrow> ctx" where
  "world nih sent =
     \<lparr>BREVO_API_KEY = Some ''key'',
      SENDER_EMAIL = Some ''noreply@x.com'',
      fetch = (\<lambda>r. if url r = ''https://api.reporter.nih.gov/v2/projects/search'' then nih
                    else if url r = ''https://api.brevo.com/v3/account''
                    then Fetched 200 (Inr (JObj []))
                    else Fetched sent (Inr (JObj []))),
      sha256_hex = (\<lambda>s. ''sha256:'' @ s),
      JSON_parse = (\<lambda>s. if s = forged_body then Inr forged_payload
                         else Inl ''Unexpected token''),
      emailContent = (\<lambda>projects criteria.
                        case projects of
                          JArr xs \<Rightarrow> Inr ''<h2>Results</h2>''
                        | _ \<Rightarrow> Inl ''projects.forEach is not a function''),
      non_string_key = (\<lambda>v. None)\<rparr>"

declare decimal.simps [simp del]

section \<open>The notifier touches no record\<close>

lemma sendSearchResultsEmail_store:
  "USERS_KV (snd (sendSearchResultsEmail c e p sc st)) = USERS_KV st"
  by (simp add: sendSearchResultsEmail_def do_fetch_def Let_def
           split: option.splits fetched.splits sum.splits prod.splits)

lemma sendSearchResultsEmail_effects:
  "\<exists>rs. effects (snd (sendSearchResultsEmail c e p sc st)) = effects st @ map Fetch rs"
proof -
  have one: "\<exists>rs. [Fetch r] = map Fetch rs" for r
    by (rule exI [of _ "[r]"]) simp
  have two: "\<exists>rs. [Fetch r, Fetch r'] = map Fetch rs" for r r'
    by (rule exI [of _ "[r, r']"]) simp
  show ?thesis
    by (simp add: sendSearchResultsEmail_def do_fetch_def Let_def one two
           split: option.splits fetched.splits sum.splits prod.splits)
qed

lemma status_search_success: "search_success b u p = Inr r \<Longrightarrow> status r = 200"
  by (auto simp add: search_success_def json_response_def split: sum.splits if_splits)

lemma status_limit_reached: "status (limit_reached u) = 429"
  by (simp add: limit_reached_def error_response_def json_response_def)

lemma status_error_response: "status (error_response code msg) = code"
  by (simp add: error_response_def json_response_def)

section \<open>The quota gate\<close>

text \<open>
  C2. For an existing account and a request that carries an email and criteria, the
  search answers 429 (the quota error) exactly when \<open>monthly_searches\<close> has reached
  the limit of the tier, 5 for a free account and 15 for an \<open>active\<close> one; the 429
  answer is the limit message and leaves the whole state, store and effects, as it
  was.
\<close>

theorem handleSearch_quota:
  assumes "USERS_KV st e = Some u" and "e \<noteq> []" and "truthy criteria"
  shows "(status (fst (handleSearch c st (Some e) criteria)) = 429)
           = (monthly_searches u \<ge> (if subscription_status u = ''active'' then 15 else 5))
       \<and> (if monthly_searches u \<ge> (if subscription_status u = ''active'' then 15 else 5)
          then handleSearch c st (Some e) criteria = (limit_reached u, st)
          else fst (handleSearch c st (Some e) criteria) \<noteq> limit_reached u)"
proof (cases "monthly_searches u \<ge> maxSearches u")
  case True
  with assms show ?thesis
    by (auto simp add: status_limit_reached maxSearches_def isFreeTier_def)
next
  case False
  have other: "status (fst (handleSearch c st (Some e) criteria)) \<noteq> 429"
    using assms False
    by (auto simp add: Let_def do_fetch_def status_error_response case_prod_beta
             dest: status_search_success split: fetched.splits sum.splits)
  then have "fst (handleSearch c st (Some e) criteria) \<noteq> limit_reached u"
    using status_limit_reached [of u] by auto
  with other False show ?thesis
    by (simp add: maxSearches_def isFreeTier_def split: if_splits)
qed

theorem handleSearch_quota_witness:
  "USERS_KV (store (alice 5)) ''a@x.com'' = Some (alice 5)
   \<and> truthy (Some (JObj [(''text_search'', JStr ''cancer'')]))
   \<and> status (fst (handleSearch (world (Fetched 200 (Inr two_results)) 201) (store (alice 5))
                  (Some ''a@x.com'') (Some (JObj [(''text_search'', JStr ''cancer'')])))) = 429
   \<and> snd (handleSearch (world (Fetched 200 (Inr two_results)) 201) (store (alice 5))
                  (Some ''a@x.com'') (Some (JObj [(''text_search'', JStr ''cancer'')])))
       = store (alice 5)"
proof -
  let ?crit = "Some (JObj [(''text_search'', JStr ''cancer'')])"
  have kv: "USERS_KV (store (alice 5)) ''a@x.com'' = Some (alice 5)"
    by (simp add: store_def alice_def)
  have ne: "''a@x.com'' \<noteq> []" and tr: "truthy ?crit"
    by simp_all
  have lim: "(if subscription_status (alice 5) = ''active'' then 15 else 5) = (5::int)"
    by (simp add: alice_def)
  have cnt: "monthly_searches (alice 5) = 5"
    by (simp add: alice_def)
  from handleSearch_quota [OF kv ne tr, of "world (Fetched 200 (Inr two_results)) 201"]
  have "status (fst (handleSearch (world (Fetched 200 (Inr two_results)) 201) (store (alice 5))
                  (Some ''a@x.com'') ?crit)) = 429
      \<and> handleSearch (world (Fetched 200 (Inr two_results)) 201) (store (alice 5))
                  (Some ''a@x.com'') ?crit = (limit_reached (alice 5), store (alice 5))"
    unfolding lim cnt by (simp add: status_limit_reached del: handleSearch.simps)
  with kv tr show ?thesis
    by (simp add: status_limit_reached del: handleSearch.simps)
qed

section \<open>Failure of the search collaborator\<close>

lemma handleSearch_store_cases:
  "USERS_KV (snd (handleSearch c st em criteria)) = USERS_KV st
   \<or> (\<exists>e u sc code d. em = Some e \<and> USERS_KV st e = Some u
         \<and> searchCriteria criteria = Inr sc
         \<and> fetch c (nihRequest (nihPayload sc (maxAbstracts u))) = Fetched code (Inr d)
         \<and> ok code \<and> d \<noteq> JNull
         \<and> USERS_KV (snd (handleSearch c st em criteria))
             = (USERS_KV st)(e \<mapsto> u\<lparr>monthly_searches := monthly_searches u + 1\<rparr>))"
proof (cases em)
  case None
  then show ?thesis by simp
next
  case (Some e)
  note em = this
  show ?thesis
  proof (cases "USERS_KV st e")
    case None
    with em show ?thesis by simp
  next
    case (Some u)
    note acct = this
    show ?thesis
    proof (cases "searchCriteria criteria")
      case (Inl msg)
      with acct em show ?thesis by simp
    next
      case (Inr sc)
      note crit = this
      show ?thesis
      proof (cases "fetch c (nihRequest (nihPayload sc (maxAbstracts u)))")
        case (Failed msg)
        with crit acct em show ?thesis
          by (simp add: Let_def do_fetch_def)
      next
        case (Fetched code b)
        note answer = this
        show ?thesis
        proof (cases b)
          case (Inl msg)
          with answer crit acct em show ?thesis
            by (simp add: Let_def do_fetch_def)
        next
          case (Inr d)
          show ?thesis
          proof (cases "d = JNull")
            case True
            with Inr answer crit acct em show ?thesis
              by (simp add: Let_def do_fetch_def)
          next
            case False
            then have "get_prop (Some d) ''results'' = Inr (prop_of d ''results'')"
              by (cases d) simp_all
            with False Inr answer crit acct em show ?thesis
              by (simp add: Let_def do_fetch_def kv_put_def sendSearchResultsEmail_store
                    case_prod_beta split: sum.splits)
          qed
        qed
      qed
    qed
  qed
qed

lemma handleSearch_run:
  assumes "USERS_KV st e = Some u" and "e \<noteq> []" and "truthy criteria"
    and "monthly_searches u < maxSearches u"
    and "searchCriteria criteria = Inr sc"
    and "fetch c (nihRequest (nihPayload sc (maxAbstracts u))) = Fetched code (Inr d)"
    and "ok code" and "d \<noteq> JNull"
  shows "handleSearch c st (Some e) criteria
         = (case search_success (fst (notified c st e u sc d)) (counted u) (projects_of d) of
              Inl msg \<Rightarrow> (error_response 500 (''Search failed: '' @ msg),
                          snd (notified c st e u sc d))
            | Inr r \<Rightarrow> (r, snd (notified c st e u sc d)))"
proof -
  from \<open>d \<noteq> JNull\<close> have "get_prop (Some d) ''results'' = Inr (prop_of d ''results'')"
    by (cases d) simp_all
  with assms show ?thesis
    by (simp add: Let_def do_fetch_def case_prod_beta notified_def counted_def projects_of_def
          split: sum.splits)
qed

lemma notified_store: "USERS_KV (snd (notified c st e u sc d)) = (USERS_KV st)(e \<mapsto> counted u)"
  by (simp add: notified_def sendSearchResultsEmail_store kv_put_def do_fetch_def)

lemma notified_effects:
  "\<exists>rs. effects (snd (notified c st e u sc d))
        = effects st @ [Fetch (nihRequest (nihPayload sc (maxAbstracts u))), Put e (counted u)]
          @ map Fetch rs"
proof -
  let ?st2 = "kv_put e (counted u)
                (snd (do_fetch c (nihRequest (nihPayload sc (maxAbstracts u))) st))"
  obtain rs where
    "effects (snd (sendSearchResultsEmail c e (projects_of d) sc ?st2))
     = effects ?st2 @ map Fetch rs"
    using sendSearchResultsEmail_effects by blast
  then have "effects (snd (notified c st e u sc d))
             = effects st @ [Fetch (nihRequest (nihPayload sc (maxAbstracts u))),
                             Put e (counted u)] @ map Fetch rs"
    by (simp add: notified_def kv_put_def do_fetch_def)
  then show ?thesis ..
qed

lemma handleSearch_first_effect:
  assumes "USERS_KV st e = Some u" and "e \<noteq> []" and "truthy criteria"
    and "monthly_searches u < maxSearches u"
    and "searchCriteria criteria = Inr sc"
  shows "\<exists>rest. effects (snd (handleSearch c st (Some e) criteria))
           = effects st @ Fetch (nihRequest (nihPayload sc (maxAbstracts u))) # rest"
proof (cases "fetch c (nihRequest (nihPayload sc (maxAbstracts u)))")
  case (Failed msg)
  with assms show ?thesis
    by (simp add: Let_def do_fetch_def)
next
  case (Fetched code b)
  show ?thesis
  proof (cases "ok code \<and> (\<exists>d. b = Inr d \<and> d \<noteq> JNull)")
    case True
    then obtain d where d: "ok code" "b = Inr d" "d \<noteq> JNull"
      by blast
    obtain rs where
      "effects (snd (notified c st e u sc d))
       = effects st @ [Fetch (nihRequest (nihPayload sc (maxAbstracts u))), Put e (counted u)]
         @ map Fetch rs"
      using notified_effects by blast
    then show ?thesis
      unfolding handleSearch_run [OF assms Fetched [unfolded d(2)] d(1) d(3)]
      by (simp split: sum.splits)
  next
    case False
    with Fetched assms show ?thesis
      by (cases b) (auto simp add: Let_def do_fetch_def)
  qed
qed

lemma handleSearch_spends:
  assumes "USERS_KV st e = Some u" and "e \<noteq> []" and "truthy criteria"
    and "monthly_searches u < maxSearches u"
    and "searchCriteria criteria = Inr sc"
    and "fetch c (nihRequest (nihPayload sc (maxAbstracts u))) = Fetched code (Inr d)"
    and "ok code" and "d \<noteq> JNull"
  shows "USERS_KV (snd (handleSearch c st (Some e) criteria))
         = (USERS_KV st)(e \<mapsto> u\<lparr>monthly_searches := monthly_searches u + 1\<rparr>)"
proof -
  have "snd (handleSearch c st (Some e) criteria) = snd (notified c st e u sc d)"
    unfolding handleSearch_run [OF assms] by (simp split: sum.splits)
  then show ?thesis
    by (simp add: notified_store counted_def)
qed

text \<open>
  C3, as the code has it. When the call to the NIH API throws or answers with a status
  that is not 2xx, an otherwise admissible search answers 500 with an error
  \<^verbatim>\<open>Search failed: ...\<close> (the upstream error), leaves every stored record as it was,
  and its only effect is the one request: nothing is written. For every search
  whatever, the store changes only after a 2xx answer whose body parsed to a value
  other than \<^verbatim>\<open>null\<close>, and then by one increment of the caller's
  \<open>monthly_searches\<close>; and every admissible search that gets such an answer does spend
  the counter, whatever the \<^verbatim>\<open>results\<close> of the body are.
\<close>

theorem handleSearch_upstream_error:
  assumes "USERS_KV st e = Some u" and "e \<noteq> []" and "truthy criteria"
    and "monthly_searches u < maxSearches u"
    and "searchCriteria criteria = Inr sc"
    and "upstream_failed (fetch c (nihRequest (nihPayload sc (maxAbstracts u))))"
  shows "status (fst (handleSearch c st (Some e) criteria)) = 500
       \<and> (\<exists>m. fst (handleSearch c st (Some e) criteria)
                = error_response 500 (''Search failed: '' @ m))
       \<and> USERS_KV (snd (handleSearch c st (Some e) criteria)) = USERS_KV st
       \<and> effects (snd (handleSearch c st (Some e) criteria))
           = effects st @ [Fetch (nihRequest (nihPayload sc (maxAbstracts u)))]
       \<and> (\<forall>c' st' em' criteria'.
             USERS_KV (snd (handleSearch c' st' em' criteria')) = USERS_KV st'
             \<or> (\<exists>e' u' sc' code d.
                   em' = Some e' \<and> USERS_KV st' e' = Some u'
                   \<and> searchCriteria criteria' = Inr sc'
                   \<and> fetch c' (nihRequest (nihPayload sc' (maxAbstracts u')))
                       = Fetched code (Inr d)
                   \<and> ok code \<and> d \<noteq> JNull
                   \<and> USERS_KV (snd (handleSearch c' st' em' criteria'))
                       = (USERS_KV st')
                           (e' \<mapsto> u'\<lparr>monthly_searches := monthly_searches u' + 1\<rparr>)))
       \<and> (\<forall>c' st' e' u' criteria' sc' code d.
             USERS_KV st' e' = Some u' \<and> e' \<noteq> [] \<and> truthy criteria'
             \<and> monthly_searches u' < maxSearches u'
             \<and> searchCriteria criteria' = Inr sc'
             \<and> fetch c' (nihRequest (nihPayload sc' (maxAbstracts u')))
                 = Fetched code (Inr d)
             \<and> ok code \<and> d \<noteq> JNull
             \<longrightarrow> USERS_KV (snd (handleSearch c' st' (Some e') criteria'))
                   = (USERS_KV st')
                       (e' \<mapsto> u'\<lparr>monthly_searches := monthly_searches u' + 1\<rparr>))"
proof -
  let ?r = "fetch c (nihRequest (nihPayload sc (maxAbstracts u)))"
  have local: "status (fst (handleSearch c st (Some e) criteria)) = 500
       \<and> (\<exists>m. fst (handleSearch c st (Some e) criteria)
                = error_response 500 (''Search failed: '' @ m))
       \<and> USERS_KV (snd (handleSearch c st (Some e) criteria)) = USERS_KV st
       \<and> effects (snd (handleSearch c st (Some e) criteria))
           = effects st @ [Fetch (nihRequest (nihPayload sc (maxAbstracts u)))]"
  proof (cases ?r)
    case (Failed msg)
    with assms show ?thesis
      by (auto simp add: Let_def do_fetch_def status_error_response)
  next
    case (Fetched code b)
    with assms have "\<not> ok code" by simp
    with Fetched assms show ?thesis
      by (auto simp add: Let_def do_fetch_def status_error_response)
  qed
  have only: "USERS_KV (snd (handleSearch c' st' em' criteria')) = USERS_KV st'
             \<or> (\<exists>e' u' sc' code d.
                   em' = Some e' \<and> USERS_KV st' e' = Some u'
                   \<and> searchCriteria criteria' = Inr sc'
                   \<and> fetch c' (nihRequest (nihPayload sc' (maxAbstracts u')))
                       = Fetched code (Inr d)
                   \<and> ok code \<and> d \<noteq> JNull
                   \<and> USERS_KV (snd (handleSearch c' st' em' criteria'))
                       = (USERS_KV st')
                           (e' \<mapsto> u'\<lparr>monthly_searches := monthly_searches u' + 1\<rparr>))"
    for c' st' em' criteria'
    by (rule handleSearch_store_cases)
  have always: "USERS_KV (snd (handleSearch c' st' (Some e') criteria'))
                   = (USERS_KV st')
                       (e' \<mapsto> u'\<lparr>monthly_searches := monthly_searches u' + 1\<rparr>)"
    if "USERS_KV st' e' = Some u' \<and> e' \<noteq> [] \<and> truthy criteria'
             \<and> monthly_searches u' < maxSearches u'
             \<and> searchCriteria criteria' = Inr sc'
             \<and> fetch c' (nihRequest (nihPayload sc' (maxAbstracts u')))
                 = Fetched code (Inr d)
             \<and> ok code \<and> d \<noteq> JNull"
    for c' st' e' u' criteria' sc' code d
    using that
      handleSearch_spends [where st = st' and e = e' and u = u' and criteria = criteria'
        and sc = sc' and c = c' and code = code and d = d]
    by blast
  from local only always show ?thesis
    by (intro conjI allI impI) (simp_all del: handleSearch.simps)
qed

theorem handleSearch_upstream_error_witness:
  "USERS_KV (store (alice 2)) ''a@x.com'' = Some (alice 2)
   \<and> monthly_searches (alice 2) < maxSearches (alice 2)
   \<and> searchCriteria (Some (JObj [(''fy'', JNum 2024)])) = Inr [(''fy'', JNum 2024)]
   \<and> upstream_failed (Fetched 503 (Inl ''Unexpected end of JSON input''))
   \<and> fst (handleSearch (world (Fetched 503 (Inl ''Unexpected end of JSON input'')) 201)
              (store (alice 2)) (Some ''a@x.com'') (Some (JObj [(''fy'', JNum 2024)])))
       = error_response 500 ''Search failed: NIH API error: 503''
   \<and> USERS_KV (snd (handleSearch (world (Fetched 503 (Inl ''Unexpected end of JSON input'')) 201)
              (store (alice 2)) (Some ''a@x.com'') (Some (JObj [(''fy'', JNum 2024)]))))
          ''a@x.com'' = Some (alice 2)
   \<and> ok 200 \<and> JObj [] \<noteq> JNull
   \<and> USERS_KV (snd (handleSearch (world (Fetched 200 (Inr (JObj []))) 201)
              (store (alice 2)) (Some ''a@x.com'') (Some (JObj [(''fy'', JNum 2024)]))))
          ''a@x.com'' = Some (alice 3)"
proof -
  let ?c = "world (Fetched 503 (Inl ''Unexpected end of JSON input'')) 201"
  let ?c' = "world (Fetched 200 (Inr (JObj []))) 201"
  let ?crit = "Some (JObj [(''fy'', JNum 2024)])"
  have kv: "USERS_KV (store (alice 2)) ''a@x.com'' = Some (alice 2)"
    by (simp add: store_def alice_def)
  have ne: "''a@x.com'' \<noteq> []" and tr: "truthy ?crit"
    by simp_all
  have under: "monthly_searches (alice 2) < maxSearches (alice 2)"
    by (simp add: alice_def maxSearches_def isFreeTier_def)
  have sc: "searchCriteria ?crit = Inr [(''fy'', JNum 2024)]"
    by (simp add: searchCriteria_def)
  have down: "upstream_failed
                (fetch ?c (nihRequest (nihPayload [(''fy'', JNum 2024)] (maxAbstracts (alice 2)))))"
    by (simp add: world_def nihRequest_def ok_def)
  have answer: "fetch ?c' (nihRequest (nihPayload [(''fy'', JNum 2024)] (maxAbstracts (alice 2))))
                = Fetched 200 (Inr (JObj []))"
    by (simp add: world_def nihRequest_def)
  have ok: "ok 200" and nn: "JObj [] \<noteq> JNull"
    by (simp_all add: ok_def)
  have bump: "(alice 2)\<lparr>monthly_searches := monthly_searches (alice 2) + 1\<rparr> = alice 3"
    by (simp add: alice_def)
  have msg: "fst (handleSearch ?c (store (alice 2)) (Some ''a@x.com'') ?crit)
             = error_response 500 ''Search failed: NIH API error: 503''"
    using kv under sc
    by (simp add: world_def nihRequest_def ok_def do_fetch_def Let_def) code_simp
  note t = handleSearch_upstream_error [OF kv ne tr under sc down]
  from t have same: "USERS_KV (snd (handleSearch ?c (store (alice 2)) (Some ''a@x.com'') ?crit))
        = USERS_KV (store (alice 2))"
    by blast
  from t have "\<forall>c' st' e' u' criteria' sc' code d.
             USERS_KV st' e' = Some u' \<and> e' \<noteq> [] \<and> truthy criteria'
             \<and> monthly_searches u' < maxSearches u'
             \<and> searchCriteria criteria' = Inr sc'
             \<and> fetch c' (nihRequest (nihPayload sc' (maxAbstracts u')))
                 = Fetched code (Inr d)
             \<and> ok code \<and> d \<noteq> JNull
             \<longrightarrow> USERS_KV (snd (handleSearch c' st' (Some e') criteria'))
                   = (USERS_KV st')
                       (e' \<mapsto> u'\<lparr>monthly_searches := monthly_searches u' + 1\<rparr>)"
    by blast
  with kv ne tr under sc answer ok nn
  have "USERS_KV (snd (handleSearch ?c' (store (alice 2)) (Some ''a@x.com'') ?crit))
        = (USERS_KV (store (alice 2)))
            (''a@x.com'' \<mapsto> (alice 2)\<lparr>monthly_searches := monthly_searches (alice 2) + 1\<rparr>)"
    by blast
  then have spent: "USERS_KV (snd (handleSearch ?c' (store (alice 2)) (Some ''a@x.com'') ?crit))
        ''a@x.com'' = Some (alice 3)"
    unfolding bump by (simp del: handleSearch.simps)
  from same kv under sc msg spent ok nn show ?thesis
    by (simp add: ok_def del: handleSearch.simps)
qed

text \<open>
  C3 as stated fails in its last clause: the counter is spent on a completed round trip
  that yields no result set. With the 2xx body \<^verbatim>\<open>{"results": 7}\<close> the record is written
  with the search counted; with \<^verbatim>\<open>{"results": {"length": {"toString": 1}}}\<close> it is
  written too, and the answer is then the 500 \<^verbatim>\<open>Search failed\<close>.
\<close>

theorem handleSearch_upstream_error_counterexample:
  "\<not> result_set (prop_of (JObj [(''results'', JNum 7)]) ''results'')
   \<and> USERS_KV (snd (handleSearch (world (Fetched 200 (Inr (JObj [(''results'', JNum 7)]))) 201)
                      (store (alice 2)) (Some ''a@x.com'') (Some (JObj [(''fy'', JNum 2024)]))))
        ''a@x.com'' = Some (alice 3)
   \<and> \<not> result_set
         (prop_of (JObj [(''results'', JObj [(''length'', JObj [(''toString'', JNum 1)])])])
            ''results'')
   \<and> handleSearch
        (world (Fetched 200
                  (Inr (JObj [(''results'', JObj [(''length'', JObj [(''toString'', JNum 1)])])])))
           201)
        (store (alice 2)) (Some ''a@x.com'') (Some (JObj [(''fy'', JNum 2024)]))
      = (error_response 500 ''Search failed: Cannot convert object to primitive value'',
         \<lparr>USERS_KV = [''a@x.com'' \<mapsto> alice 3],
          effects =
            [Fetch (nihRequest (nihPayload [(''fy'', JNum 2024)] 3)),
             Put ''a@x.com'' (alice 3),
             Fetch \<lparr>url = ''https://api.brevo.com/v3/account'', http_method = ''GET'',
                    headers = [(''api-key'', ''key'')], payload = None\<rparr>]\<rparr>)"
  by (simp add: store_def alice_def maxSearches_def maxAbstracts_def isFreeTier_def
        searchCriteria_def do_fetch_def world_def nihRequest_def nihPayload_def ok_def
        js_or_def Let_def kv_put_def sendSearchResultsEmail_def search_success_def
        length_text_def)

section \<open>A completed search\<close>

lemma length_text_result_set:
  assumes "result_set (prop_of d ''results'')"
  shows "\<exists>n. length_text (projects_of d) = Inr n"
proof (cases "prop_of d ''results''")
  case None
  then show ?thesis
    by (simp add: projects_of_def js_or_def length_text_def)
next
  case (Some v)
  with assms show ?thesis
    by (cases v) (simp_all add: projects_of_def js_or_def length_text_def)
qed

text \<open>
  C5. When the NIH API answers 2xx with a body \<open>d\<close> that parses and is not
  \<^verbatim>\<open>null\<close>, an admissible search first writes the record with \<open>monthly_searches\<close>
  one higher and only then runs the notifier, on the state that already holds the
  write. Whatever the notifier returns, the record with the incremented counter is what
  the store holds at the end, and the effects after the write are requests only. When
  the answer carries a result set, the response is a 200 whatever the notifier returns;
  it carries \<^verbatim>\<open>warning: "Email delivery failed"\<close> when the notifier returns
  \<^verbatim>\<open>false\<close>, and no warning otherwise.
\<close>

theorem handleSearch_counts_before_notifying:
  assumes "USERS_KV st e = Some u" and "e \<noteq> []" and "truthy criteria"
    and "monthly_searches u < maxSearches u"
    and "searchCriteria criteria = Inr sc"
    and "fetch c (nihRequest (nihPayload sc (maxAbstracts u))) = Fetched code (Inr d)"
    and "ok code" and "d \<noteq> JNull"
  shows "snd (handleSearch c st (Some e) criteria)
           = snd (sendSearchResultsEmail c e (projects_of d) sc
                    (kv_put e (u\<lparr>monthly_searches := monthly_searches u + 1\<rparr>)
                       (snd (do_fetch c (nihRequest (nihPayload sc (maxAbstracts u))) st))))
       \<and> USERS_KV (snd (handleSearch c st (Some e) criteria))
           = (USERS_KV st)(e \<mapsto> u\<lparr>monthly_searches := monthly_searches u + 1\<rparr>)
       \<and> (\<exists>rs. effects (snd (handleSearch c st (Some e) criteria))
                 = effects st
                   @ [Fetch (nihRequest (nihPayload sc (maxAbstracts u))),
                      Put e (u\<lparr>monthly_searches := monthly_searches u + 1\<rparr>)]
                   @ map Fetch rs)
       \<and> (result_set (prop_of d ''results'')
            \<longrightarrow> search_success (fst (notified c st e u sc d)) (counted u) (projects_of d)
                  = Inr (fst (handleSearch c st (Some e) criteria))
                \<and> status (fst (handleSearch c st (Some e) criteria)) = 200
                \<and> body_property (fst (handleSearch c st (Some e) criteria)) ''warning''
                    = (if fst (notified c st e u sc d) then None
                       else Some (JStr ''Email delivery failed'')))"
proof -
  let ?r = "handleSearch c st (Some e) criteria"
  let ?out = "notified c st e u sc d"
  note run = handleSearch_run [OF assms]
  have state: "snd ?r = snd ?out"
    unfolding run by (simp split: sum.splits)
  have "snd ?r = snd (sendSearchResultsEmail c e (projects_of d) sc
                    (kv_put e (u\<lparr>monthly_searches := monthly_searches u + 1\<rparr>)
                       (snd (do_fetch c (nihRequest (nihPayload sc (maxAbstracts u))) st))))"
    unfolding state by (simp add: notified_def counted_def)
  moreover have "USERS_KV (snd ?r)
                 = (USERS_KV st)(e \<mapsto> u\<lparr>monthly_searches := monthly_searches u + 1\<rparr>)"
    unfolding state by (simp add: notified_store counted_def)
  moreover have "\<exists>rs. effects (snd ?r)
                 = effects st
                   @ [Fetch (nihRequest (nihPayload sc (maxAbstracts u))),
                      Put e (u\<lparr>monthly_searches := monthly_searches u + 1\<rparr>)]
                   @ map Fetch rs"
    unfolding state using notified_effects [of c st e u sc d] by (simp add: counted_def)
  moreover have "search_success (fst ?out) (counted u) (projects_of d) = Inr (fst ?r)
                \<and> status (fst ?r) = 200
                \<and> body_property (fst ?r) ''warning''
                    = (if fst ?out then None else Some (JStr ''Email delivery failed''))"
    if rs: "result_set (prop_of d ''results'')"
  proof -
    from length_text_result_set [OF rs] obtain n where n: "length_text (projects_of d) = Inr n"
      by blast
    then obtain r where r: "search_success (fst ?out) (counted u) (projects_of d) = Inr r"
      by (cases "fst ?out") (simp_all add: search_success_def)
    then have resp: "fst ?r = r"
      unfolding run by simp
    have "body_property r ''warning''
          = (if fst ?out then None else Some (JStr ''Email delivery failed''))"
      using r n
      by (cases "js_length (projects_of d)")
         (auto simp add: search_success_def body_property_def json_response_def optional_def
            split: if_splits)
    with r resp status_search_success [OF r] show ?thesis
      by simp
  qed
  ultimately show ?thesis
    by blast
qed

theorem handleSearch_counts_before_notifying_witness:
  "USERS_KV (store (alice 2)) ''a@x.com'' = Some (alice 2)
   \<and> monthly_searches (alice 2) < maxSearches (alice 2)
   \<and> searchCriteria (Some (JObj [(''fy'', JNum 2024)])) = Inr [(''fy'', JNum 2024)]
   \<and> ok 200 \<and> two_results \<noteq> JNull \<and> result_set (prop_of two_results ''results'')
   \<and> status (fst (handleSearch (world (Fetched 200 (Inr two_results)) 500)
                (store (alice 2)) (Some ''a@x.com'') (Some (JObj [(''fy'', JNum 2024)])))) = 200
   \<and> body_property (fst (handleSearch (world (Fetched 200 (Inr two_results)) 500)
                (store (alice 2)) (Some ''a@x.com'') (Some (JObj [(''fy'', JNum 2024)]))))
        ''warning'' = Some (JStr ''Email delivery failed'')
   \<and> USERS_KV (snd (handleSearch (world (Fetched 200 (Inr two_results)) 500)
                (store (alice 2)) (Some ''a@x.com'') (Some (JObj [(''fy'', JNum 2024)]))))
        ''a@x.com'' = Some (alice 3)"
proof -
  let ?c = "world (Fetched 200 (Inr two_results)) 500"
  let ?crit = "Some (JObj [(''fy'', JNum 2024)])"
  have kv: "USERS_KV (store (alice 2)) ''a@x.com'' = Some (alice 2)"
    by (simp add: store_def alice_def)
  have ne: "''a@x.com'' \<noteq> []" and tr: "truthy ?crit"
    by simp_all
  have under: "monthly_searches (alice 2) < maxSearches (alice 2)"
    by (simp add: alice_def maxSearches_def isFreeTier_def)
  have sc: "searchCriteria ?crit = Inr [(''fy'', JNum 2024)]"
    by (simp add: searchCriteria_def)
  have answer: "fetch ?c (nihRequest (nihPayload [(''fy'', JNum 2024)] (maxAbstracts (alice 2))))
                = Fetched 200 (Inr two_results)"
    by (simp add: world_def nihRequest_def)
  have ok: "ok 200" and nn: "two_results \<noteq> JNull"
    and rs: "result_set (prop_of two_results ''results'')"
    by (simp_all add: ok_def two_results_def)
  have unsent: "\<not> fst (notified ?c st e u sc' d)" for st e u sc' d
    by (simp add: notified_def sendSearchResultsEmail_def world_def do_fetch_def ok_def Let_def
          split: sum.splits)
  have bump: "(alice 2)\<lparr>monthly_searches := monthly_searches (alice 2) + 1\<rparr> = alice 3"
    by (simp add: alice_def)
  note run = handleSearch_counts_before_notifying [OF kv ne tr under sc answer ok nn,
      unfolded bump]
  from run [THEN conjunct2] rs
  have "status (fst (handleSearch ?c (store (alice 2)) (Some ''a@x.com'') ?crit)) = 200
      \<and> body_property (fst (handleSearch ?c (store (alice 2)) (Some ''a@x.com'') ?crit))
           ''warning'' = Some (JStr ''Email delivery failed'')
      \<and> USERS_KV (snd (handleSearch ?c (store (alice 2)) (Some ''a@x.com'') ?crit))
         = (USERS_KV (store (alice 2)))(''a@x.com'' \<mapsto> alice 3)"
    by (simp add: unsent del: handleSearch.simps)
  with kv under sc ok nn rs show ?thesis
    by (simp del: handleSearch.simps)
qed

section \<open>Registration and login\<close>

lemma safeUserData_no_hash: "map_of (safeUserData u) ''password_hash'' = None"
proof -
  have "''password_hash'' \<notin> fst ` set (AList.delete ''password_hash'' (properties u))"
    by (rule delete_notin_dom)
  then show ?thesis
    by (simp add: safeUserData_def map_of_eq_None_iff)
qed

lemma error_response_no_hash: "\<not> exposes_hash (content (error_response code msg))"
  by (simp add: error_response_def json_response_def has_property_def)

lemma search_success_no_hash:
  assumes "search_success b u p = Inr r"
  shows "\<not> exposes_hash (content r)"
  using assms
  by (cases "js_length p")
     (auto simp add: search_success_def json_response_def has_property_def optional_def
        safeUserData_no_hash split: sum.splits if_splits)

text \<open>
  C6. No response of \<^verbatim>\<open>handleRegister\<close>, \<^verbatim>\<open>handleLogin\<close>,
  \<^verbatim>\<open>handleSearch\<close> or \<^verbatim>\<open>handleReset\<close>, on any request and in any state, has a
  \<^verbatim>\<open>password_hash\<close> property, neither in the body nor in the \<^verbatim>\<open>user\<close> object the
  body carries.
\<close>

theorem responses_never_expose_hash:
  "\<not> exposes_hash (content (fst (handleRegister c now1 now2 st em pw)))
   \<and> \<not> exposes_hash (content (fst (handleLogin c now st em pw)))
   \<and> \<not> exposes_hash (content (fst (handleSearch c st em criteria)))
   \<and> \<not> exposes_hash (content (fst (handleReset now st em)))"
proof (intro conjI)
  show "\<not> exposes_hash (content (fst (handleRegister c now1 now2 st em pw)))"
  proof (cases "(c, now1, now2, st, em, pw)" rule: handleRegister.cases)
    case (1 c' n1 n2 st' e password)
    then show ?thesis
      by (simp add: Let_def error_response_no_hash json_response_def has_property_def
            safeUserData_no_hash split: option.splits)
  qed (simp_all add: error_response_no_hash)
  show "\<not> exposes_hash (content (fst (handleLogin c now st em pw)))"
  proof (cases "(c, now, st, em, pw)" rule: handleLogin.cases)
    case (1 c' n st' e password)
    then show ?thesis
      by (simp add: Let_def error_response_no_hash json_response_def has_property_def
            safeUserData_no_hash split: option.splits)
  qed (simp_all add: error_response_no_hash)
  show "\<not> exposes_hash (content (fst (handleSearch c st em criteria)))"
  proof (cases em)
    case None
    then show ?thesis by (simp add: error_response_no_hash)
  next
    case (Some e)
    then show ?thesis
      by (auto simp add: Let_def do_fetch_def case_prod_beta error_response_no_hash
            limit_reached_def dest: search_success_no_hash
            split: option.splits fetched.splits sum.splits)
  qed
  show "\<not> exposes_hash (content (fst (handleReset now st em)))"
  proof (cases "USERS_KV st (case em of None \<Rightarrow> ''undefined'' | Some e \<Rightarrow> e)")
    case None
    then show ?thesis
      by (simp add: handleReset_def Let_def error_response_no_hash)
  next
    case (Some u)
    then show ?thesis
      by (simp add: handleReset_def Let_def error_response_no_hash json_response_def
            has_property_def safeUserData_no_hash)
  qed
qed

theorem responses_never_expose_hash_witness:
  "body_property (fst (handleLogin (world (Failed ''down'') 201) feb01 (store (alice 2))
                         (Some ''a@x.com'') (Some ''pw''))) ''user''
     = Some (JObj [(''email'', JStr ''a@x.com''),
                   (''subscription_status'', JStr ''free''),
                   (''monthly_searches'', JNum 0),
                   (''created_at'', JStr ''2024-01-15T09:30:00.000Z''),
                   (''last_reset'', JStr ''2024-02-01T08:00:00.250Z'')])
   \<and> \<not> exposes_hash (content (fst (handleLogin (world (Failed ''down'') 201) feb01
                                       (store (alice 2)) (Some ''a@x.com'') (Some ''pw''))))"
proof -
  have "body_property (fst (handleLogin (world (Failed ''down'') 201) feb01 (store (alice 2))
                         (Some ''a@x.com'') (Some ''pw''))) ''user''
     = Some (JObj [(''email'', JStr ''a@x.com''),
                   (''subscription_status'', JStr ''free''),
                   (''monthly_searches'', JNum 0),
                   (''created_at'', JStr ''2024-01-15T09:30:00.000Z''),
                   (''last_reset'', JStr ''2024-02-01T08:00:00.250Z'')])"
    by code_simp
  with responses_never_expose_hash [of "world (Failed ''down'') 201" jan15 jan15
      "store (alice 2)" "Some ''a@x.com''" "Some ''pw''" feb01 None]
  show ?thesis
    by blast
qed

text \<open>
  C7. Registering an email that is already in the store answers 400
  \<^verbatim>\<open>User already exists\<close> and returns the state as it was: the stored record is the
  first one, and there is no effect, so no write. (With the password missing the answer
  is the 400 for missing input; the state is untouched all the same.)
\<close>

theorem handleRegister_existing:
  assumes "USERS_KV st e = Some u" and "e \<noteq> []"
  shows "snd (handleRegister c now1 now2 st (Some e) pw) = st
       \<and> USERS_KV (snd (handleRegister c now1 now2 st (Some e) pw)) e = Some u
       \<and> (if truthy_str pw
          then fst (handleRegister c now1 now2 st (Some e) pw)
               = error_response 400 ''User already exists''
          else fst (handleRegister c now1 now2 st (Some e) pw)
               = error_response 400 ''Email and password required'')"
proof (cases pw)
  case None
  with assms show ?thesis by simp
next
  case (Some password)
  with assms show ?thesis by (cases "password = []") simp_all
qed

theorem handleRegister_existing_witness:
  "USERS_KV (store (alice 2)) ''a@x.com'' = Some (alice 2)
   \<and> handleRegister (world (Failed ''down'') 201) feb01 feb01 (store (alice 2))
        (Some ''a@x.com'') (Some ''other'')
      = (error_response 400 ''User already exists'', store (alice 2))"
proof -
  have kv: "USERS_KV (store (alice 2)) ''a@x.com'' = Some (alice 2)"
    by (simp add: store_def alice_def)
  have ne: "''a@x.com'' \<noteq> []"
    by simp
  from handleRegister_existing [OF kv ne, of "world (Failed ''down'') 201" feb01 feb01
      "Some ''other''"] kv
  show ?thesis
    by (simp add: prod_eq_iff del: handleRegister.simps)
qed

text \<open>
  C8. A login to an existing account with a password whose hash is not the stored one
  answers 401 \<^verbatim>\<open>Invalid credentials\<close> and returns the state as it was: the record,
  with its \<open>monthly_searches\<close> and \<open>last_reset\<close>, is unchanged and there is no effect,
  so no write, even when the month has changed since \<open>last_reset\<close>.
\<close>

theorem handleLogin_wrong_password:
  assumes "USERS_KV st e = Some u" and "e \<noteq> []" and "password \<noteq> []"
    and "\<not> verifyPassword c password (password_hash u)"
  shows "handleLogin c now st (Some e) (Some password)
           = (error_response 401 ''Invalid credentials'', st)
       \<and> USERS_KV (snd (handleLogin c now st (Some e) (Some password))) e = Some u
       \<and> effects (snd (handleLogin c now st (Some e) (Some password))) = effects st"
  using assms by simp

theorem handleLogin_wrong_password_witness:
  "USERS_KV (store (alice 2)) ''a@x.com'' = Some (alice 2)
   \<and> \<not> verifyPassword (world (Failed ''down'') 201) ''guess'' (password_hash (alice 2))
   \<and> getMonth feb01 \<noteq> getMonth (last_reset (alice 2))
   \<and> handleLogin (world (Failed ''down'') 201) feb01 (store (alice 2))
        (Some ''a@x.com'') (Some ''guess'')
      = (error_response 401 ''Invalid credentials'', store (alice 2))"
proof -
  have kv: "USERS_KV (store (alice 2)) ''a@x.com'' = Some (alice 2)"
    by (simp add: store_def alice_def)
  have ne: "''a@x.com'' \<noteq> []" and pn: "''guess'' \<noteq> []"
    by simp_all
  have wrong: "\<not> verifyPassword (world (Failed ''down'') 201) ''guess'' (password_hash (alice 2))"
    by (simp add: verifyPassword_def hashPassword_def world_def alice_def)
  have month: "getMonth feb01 \<noteq> getMonth (last_reset (alice 2))"
    by (simp add: getMonth_def feb01_def jan15_def alice_def)
  from handleLogin_wrong_password [OF kv ne pn wrong, of feb01] kv wrong month
  show ?thesis
    by (simp del: handleLogin.simps)
qed

section \<open>The payment webhook\<close>

lemma handleCheckoutCompleted_eq:
  "handleCheckoutCompleted c now st ob =
     (case checkout_key c ob of
        None \<Rightarrow> st
      | Some k \<Rightarrow> (case USERS_KV st k of
                     None \<Rightarrow> st
                   | Some u \<Rightarrow> kv_put k (activated now ob u) st))"
proof (cases ob)
  case None
  then show ?thesis by simp
next
  case (Some session)
  have tr: "truthy x \<Longrightarrow> x \<noteq> None" for x
    by (cases x) simp_all
  from Some show ?thesis
    by (cases session)
       (auto simp add: Let_def activated_def dest: tr split: option.splits)
qed

lemma activated_twice: "activated now2 ob (activated now1 ob u) = activated now2 ob u"
  by (simp add: activated_def)

lemma activated_but_time:
  "(activated now2 ob u)\<lparr>upgraded_at := None\<rparr> = (activated now1 ob u)\<lparr>upgraded_at := None\<rparr>"
  by (simp add: activated_def)

text \<open>
  C4. Applying the checkout-completed update twice with the same event leaves the store
  exactly as one application (made at the time of the second) leaves it; and compared
  with the store after the first application alone, every record is the same in every
  property but \<open>upgraded_at\<close>, which holds the time of the latest application: the
  status is \<open>active\<close> and the recorded customer and subscription ids are the same.
  With no clock tick between the two applications the stores are equal outright.
\<close>

theorem handleCheckoutCompleted_idempotent:
  "USERS_KV (handleCheckoutCompleted c now2 (handleCheckoutCompleted c now1 st ob) ob)
     = USERS_KV (handleCheckoutCompleted c now2 st ob)
   \<and> without_upgraded_at
       (USERS_KV (handleCheckoutCompleted c now2 (handleCheckoutCompleted c now1 st ob) ob))
     = without_upgraded_at (USERS_KV (handleCheckoutCompleted c now1 st ob))
   \<and> USERS_KV (handleCheckoutCompleted c now1 (handleCheckoutCompleted c now1 st ob) ob)
     = USERS_KV (handleCheckoutCompleted c now1 st ob)"
proof -
  have twice: "USERS_KV (handleCheckoutCompleted c t2 (handleCheckoutCompleted c t1 st ob) ob)
                 = USERS_KV (handleCheckoutCompleted c t2 st ob)
             \<and> without_upgraded_at
                 (USERS_KV (handleCheckoutCompleted c t2 (handleCheckoutCompleted c t1 st ob) ob))
               = without_upgraded_at (USERS_KV (handleCheckoutCompleted c t1 st ob))"
    for t1 t2
  proof (cases "checkout_key c ob")
    case None
    then show ?thesis
      by (simp add: handleCheckoutCompleted_eq)
  next
    case (Some k)
    show ?thesis
    proof (cases "USERS_KV st k")
      case None
      with Some show ?thesis
        by (simp add: handleCheckoutCompleted_eq)
    next
      case (Some u)
      with \<open>checkout_key c ob = Some k\<close> show ?thesis
        by (simp add: handleCheckoutCompleted_eq kv_put_def activated_twice
              without_upgraded_at_def fun_eq_iff activated_but_time)
    qed
  qed
  from twice [where ?t1.0 = now1 and ?t2.0 = now2] twice [where ?t1.0 = now1 and ?t2.0 = now1]
  show ?thesis
    by blast
qed

theorem handleCheckoutCompleted_idempotent_witness:
  "USERS_KV (handleCheckoutCompleted (world (Failed ''down'') 201) feb01
               (handleCheckoutCompleted (world (Failed ''down'') 201) jan15 (store (alice 2))
                  (Some (JObj [(''customer_email'', JStr ''a@x.com''),
                               (''customer'', JStr ''cus_1''),
                               (''subscription'', JStr ''sub_1'')])))
               (Some (JObj [(''customer_email'', JStr ''a@x.com''),
                            (''customer'', JStr ''cus_1''),
                            (''subscription'', JStr ''sub_1'')]))) ''a@x.com''
   = Some ((alice 2)\<lparr>subscription_status := ''active'',
                       stripe_customer_id := Some (JStr ''cus_1''),
                       subscription_id := Some (JStr ''sub_1''),
                       upgraded_at := Some feb01\<rparr>)"
proof -
  let ?c = "world (Failed ''down'') 201"
  let ?ob = "Some (JObj [(''customer_email'', JStr ''a@x.com''),
                         (''customer'', JStr ''cus_1''),
                         (''subscription'', JStr ''sub_1'')])"
  have once: "USERS_KV (handleCheckoutCompleted ?c feb01 (store (alice 2)) ?ob) ''a@x.com''
              = Some ((alice 2)\<lparr>subscription_status := ''active'',
                       stripe_customer_id := Some (JStr ''cus_1''),
                       subscription_id := Some (JStr ''sub_1''),
                       upgraded_at := Some feb01\<rparr>)"
    by (simp add: js_or_def kv_key_def store_def alice_def kv_put_def Let_def)
  from handleCheckoutCompleted_idempotent [of ?c feb01 jan15 "store (alice 2)" ?ob]
  have "USERS_KV (handleCheckoutCompleted ?c feb01
                   (handleCheckoutCompleted ?c jan15 (store (alice 2)) ?ob) ?ob)
        = USERS_KV (handleCheckoutCompleted ?c feb01 (store (alice 2)) ?ob)"
    by (rule conjunct1)
  with once show ?thesis
    by (simp del: handleCheckoutCompleted.simps)
qed

text \<open>
  C10. The webhook reads the \<^verbatim>\<open>Stripe-Signature\<close> header and never uses it: two
  requests that differ in nothing but that header, present or absent, get the same
  response and leave the same state. So a POST whose body parses to an object of type
  \<^verbatim>\<open>checkout.session.completed\<close> with the email of an existing account under
  \<^verbatim>\<open>data.object.customer_email\<close> is acknowledged and sets that account's
  \<open>subscription_status\<close> to \<open>active\<close>, whatever its signature.
\<close>

theorem onRequest_ignores_signature:
  "onRequest c now st (r\<lparr>stripe_signature := sig1\<rparr>)
     = onRequest c now st (r\<lparr>stripe_signature := sig2\<rparr>)
   \<and> (req_method r = ''POST''
        \<and> JSON_parse c (req_body r) = Inr p
        \<and> prop_of p ''type'' = Some (JStr ''checkout.session.completed'')
        \<and> data_object p = Inr (Some session)
        \<and> prop_of session ''customer_email'' = Some (JStr e) \<and> e \<noteq> []
        \<and> USERS_KV st e = Some u
      \<longrightarrow> fst (onRequest c now st r) = received
          \<and> USERS_KV (snd (onRequest c now st r)) e
              = Some (u\<lparr>subscription_status := ''active'',
                         stripe_customer_id := prop_of session ''customer'',
                         subscription_id := prop_of session ''subscription'',
                         upgraded_at := Some now\<rparr>))"
proof (intro conjI impI)
  show "onRequest c now st (r\<lparr>stripe_signature := sig1\<rparr>)
          = onRequest c now st (r\<lparr>stripe_signature := sig2\<rparr>)"
    by (simp add: onRequest_def Let_def)
next
  assume h: "req_method r = ''POST''
        \<and> JSON_parse c (req_body r) = Inr p
        \<and> prop_of p ''type'' = Some (JStr ''checkout.session.completed'')
        \<and> data_object p = Inr (Some session)
        \<and> prop_of session ''customer_email'' = Some (JStr e) \<and> e \<noteq> []
        \<and> USERS_KV st e = Some u"
  then have ty: "get_prop (Some p) ''type'' = Inr (Some (JStr ''checkout.session.completed''))"
    by (cases p) simp_all
  from h have key: "checkout_key c (Some session) = Some e"
    by (cases session) (simp_all add: js_or_def kv_key_def)
  from h ty have run: "onRequest c now st r
                       = (received, handleCheckoutCompleted c now st (Some session))"
    by (simp add: onRequest_def Let_def)
  show "fst (onRequest c now st r) = received"
    by (simp add: run)
  show "USERS_KV (snd (onRequest c now st r)) e
          = Some (u\<lparr>subscription_status := ''active'',
                     stripe_customer_id := prop_of session ''customer'',
                     subscription_id := prop_of session ''subscription'',
                     upgraded_at := Some now\<rparr>)"
    using h key
    by (simp add: run handleCheckoutCompleted_eq kv_put_def activated_def
          del: handleCheckoutCompleted.simps)
qed

theorem onRequest_ignores_signature_witness:
  "JSON_parse (world (Failed ''down'') 201) forged_body = Inr forged_payload
   \<and> data_object forged_payload = Inr (Some (JObj [(''customer_email'', JStr ''a@x.com'')]))
   \<and> USERS_KV (store (alice 5)) ''a@x.com'' = Some (alice 5)
   \<and> onRequest (world (Failed ''down'') 201) feb01 (store (alice 5))
        \<lparr>req_method = ''POST'', req_body = forged_body, stripe_signature = None\<rparr>
      = onRequest (world (Failed ''down'') 201) feb01 (store (alice 5))
          \<lparr>req_method = ''POST'', req_body = forged_body,
           stripe_signature = Some ''t=1706774400,v1=5257a869''\<rparr>
   \<and> fst (onRequest (world (Failed ''down'') 201) feb01 (store (alice 5))
        \<lparr>req_method = ''POST'', req_body = forged_body, stripe_signature = None\<rparr>)
      = received
   \<and> map_option subscription_status
        (USERS_KV (snd (onRequest (world (Failed ''down'') 201) feb01 (store (alice 5))
           \<lparr>req_method = ''POST'', req_body = forged_body, stripe_signature = None\<rparr>))
           ''a@x.com'')
      = Some ''active''"
proof -
  let ?c = "world (Failed ''down'') 201"
  let ?r = "\<lparr>req_method = ''POST'', req_body = forged_body, stripe_signature = None\<rparr>"
  let ?session = "JObj [(''customer_email'', JStr ''a@x.com'')]"
  have parse: "JSON_parse ?c forged_body = Inr forged_payload"
    by (simp add: world_def)
  have ob: "data_object forged_payload = Inr (Some ?session)"
    by (simp add: data_object_def forged_payload_def)
  have ty: "prop_of forged_payload ''type'' = Some (JStr ''checkout.session.completed'')"
    by (simp add: forged_payload_def)
  have kv: "USERS_KV (store (alice 5)) ''a@x.com'' = Some (alice 5)"
    by (simp add: store_def alice_def)
  note t = onRequest_ignores_signature [where c = ?c and now = feb01
      and st = "store (alice 5)" and r = ?r and ?sig1.0 = None
      and ?sig2.0 = "Some ''t=1706774400,v1=5257a869''" and p = forged_payload
      and session = ?session and e = "''a@x.com''" and u = "alice 5"]
  from t have same: "onRequest ?c feb01 (store (alice 5)) (?r\<lparr>stripe_signature := None\<rparr>)
      = onRequest ?c feb01 (store (alice 5))
          (?r\<lparr>stripe_signature := Some ''t=1706774400,v1=5257a869''\<rparr>)"
    by (rule conjunct1)
  from t [THEN conjunct2] parse ob ty kv
  have "fst (onRequest ?c feb01 (store (alice 5)) ?r) = received
      \<and> USERS_KV (snd (onRequest ?c feb01 (store (alice 5)) ?r)) ''a@x.com''
          = Some ((alice 5)\<lparr>subscription_status := ''active'',
                         stripe_customer_id := prop_of ?session ''customer'',
                         subscription_id := prop_of ?session ''subscription'',
                         upgraded_at := Some feb01\<rparr>)"
    by simp
  with same parse ob kv show ?thesis
    by simp
qed

section \<open>The request sent to the NIH API\<close>

lemma spread_truthy:
  assumes "map_of (spread criteria) k = Some v"
  shows "truthy criteria"
proof (cases criteria)
  case None
  with assms show ?thesis by simp
next
  case (Some j)
  with assms show ?thesis
    by (cases j) auto
qed

lemma searchCriteria_rewritten:
  assumes "map_of (spread criteria) ''text_search'' = Some t" and "truthy (Some t)"
    and "String_js t = Inr s"
  shows "\<exists>sc. searchCriteria criteria = Inr sc
           \<and> map_of sc ''text_search'' = None
           \<and> map_of sc ''advanced_text_search''
               = Some (JObj [(''operator'', JStr ''and''),
                             (''search_field'', JStr ''projecttitle,terms,abstracttext''),
                             (''search_text'', JStr s)])
           \<and> (\<forall>k. k \<noteq> ''text_search'' \<and> k \<noteq> ''advanced_text_search''
                  \<longrightarrow> map_of sc k = map_of (spread criteria) k)"
  using assms
  by (simp add: searchCriteria_def Let_def delete_conv update_conv')

lemma searchCriteria_untouched:
  assumes "\<not> truthy (map_of (spread criteria) ''text_search'')"
  shows "searchCriteria criteria = Inr (spread criteria)"
proof (cases "map_of (spread criteria) ''text_search''")
  case None
  then show ?thesis
    by (simp add: searchCriteria_def Let_def)
next
  case (Some t)
  with assms show ?thesis
    by (simp add: searchCriteria_def Let_def)
qed

lemma nihRequest_nihPayload:
  "nihRequest (nihPayload sc (maxAbstracts u))
   = \<lparr>url = ''https://api.reporter.nih.gov/v2/projects/search'',
      http_method = ''POST'',
      headers = [(''Content-Type'', ''application/json'')],
      payload = Some (JObj
        [(''criteria'', JObj sc),
         (''sort_field'', JStr ''project_start_date''),
         (''sort_order'', JStr ''desc''),
         (''offset'', JNum 0),
         (''limit'', JNum (if subscription_status u = ''active'' then 10 else 3))])\<rparr>"
  by (simp add: nihRequest_def nihPayload_def maxAbstracts_def isFreeTier_def)

lemma searchCriteria_throws:
  assumes "map_of (spread criteria) ''text_search'' = Some t" and "truthy (Some t)"
    and "String_js t = Inl msg"
  shows "searchCriteria criteria = Inl msg"
  using assms by (simp add: searchCriteria_def Let_def)

text \<open>
  C9, as the code has it. Take a search that passes the gate and whose criteria have a
  property \<^verbatim>\<open>text_search\<close> with the value \<open>t\<close>.

  When \<open>t\<close> is truthy and \<^verbatim>\<open>String(t)\<close> is \<open>s\<close> (for a string \<open>t\<close>, \<open>s\<close> is \<open>t\<close>
  itself), the first effect of the search is one POST to the NIH API. The criteria it
  sends have no \<^verbatim>\<open>text_search\<close>; their \<^verbatim>\<open>advanced_text_search\<close> is the clause with
  operator \<^verbatim>\<open>and\<close>, the fields \<^verbatim>\<open>projecttitle,terms,abstracttext\<close> and the text
  \<open>s\<close>, whatever the caller had put under that name; every other property is the
  caller's. When \<^verbatim>\<open>String(t)\<close> throws, the search answers 500 and sends nothing.

  When \<open>t\<close> is falsy, the first effect is the POST with the criteria as they came.

  In both requests the body has \<^verbatim>\<open>sort_field\<close> \<^verbatim>\<open>project_start_date\<close>,
  \<^verbatim>\<open>sort_order\<close> \<^verbatim>\<open>desc\<close>, \<^verbatim>\<open>offset\<close> 0 and \<^verbatim>\<open>limit\<close> 3 for a free account,
  10 for an \<open>active\<close> one; the handler has no other input for them.
\<close>

theorem handleSearch_request:
  assumes "USERS_KV st e = Some u" and "e \<noteq> []"
    and "monthly_searches u < maxSearches u"
    and "map_of (spread criteria) ''text_search'' = Some t"
  shows "(truthy (Some t) \<longrightarrow>
            (\<forall>s. String_js t = Inr s \<longrightarrow>
               (\<exists>sc rest.
                  effects (snd (handleSearch c st (Some e) criteria))
                    = effects st
                      @ Fetch \<lparr>url = ''https://api.reporter.nih.gov/v2/projects/search'',
                               http_method = ''POST'',
                               headers = [(''Content-Type'', ''application/json'')],
                               payload = Some (JObj
                                 [(''criteria'', JObj sc),
                                  (''sort_field'', JStr ''project_start_date''),
                                  (''sort_order'', JStr ''desc''),
                                  (''offset'', JNum 0),
                                  (''limit'', JNum (if subscription_status u = ''active''
                                                   then 10 else 3))])\<rparr>
                      # rest
                \<and> map_of sc ''text_search'' = None
                \<and> map_of sc ''advanced_text_search''
                    = Some (JObj [(''operator'', JStr ''and''),
                                  (''search_field'', JStr ''projecttitle,terms,abstracttext''),
                                  (''search_text'', JStr s)])
                \<and> (\<forall>k. k \<noteq> ''text_search'' \<and> k \<noteq> ''advanced_text_search''
                       \<longrightarrow> map_of sc k = map_of (spread criteria) k)))
          \<and> (\<forall>s. t = JStr s \<longrightarrow> String_js t = Inr s)
          \<and> (\<forall>msg. String_js t = Inl msg
                \<longrightarrow> handleSearch c st (Some e) criteria
                    = (error_response 500 (''Search failed: '' @ msg), st)))
       \<and> (\<not> truthy (Some t) \<longrightarrow>
            (\<exists>rest.
               effects (snd (handleSearch c st (Some e) criteria))
                 = effects st
                   @ Fetch \<lparr>url = ''https://api.reporter.nih.gov/v2/projects/search'',
                            http_method = ''POST'',
                            headers = [(''Content-Type'', ''application/json'')],
                            payload = Some (JObj
                              [(''criteria'', JObj (spread criteria)),
                               (''sort_field'', JStr ''project_start_date''),
                               (''sort_order'', JStr ''desc''),
                               (''offset'', JNum 0),
                               (''limit'', JNum (if subscription_status u = ''active''
                                                then 10 else 3))])\<rparr>
                   # rest))"
proof -
  have tr: "truthy criteria"
    using assms(4) by (rule spread_truthy)
  have rewritten: "\<exists>sc rest.
                  effects (snd (handleSearch c st (Some e) criteria))
                    = effects st
                      @ Fetch \<lparr>url = ''https://api.reporter.nih.gov/v2/projects/search'',
                               http_method = ''POST'',
                               headers = [(''Content-Type'', ''application/json'')],
                               payload = Some (JObj
                                 [(''criteria'', JObj sc),
                                  (''sort_field'', JStr ''project_start_date''),
                                  (''sort_order'', JStr ''desc''),
                                  (''offset'', JNum 0),
                                  (''limit'', JNum (if subscription_status u = ''active''
                                                   then 10 else 3))])\<rparr>
                      # rest
                \<and> map_of sc ''text_search'' = None
                \<and> map_of sc ''advanced_text_search''
                    = Some (JObj [(''operator'', JStr ''and''),
                                  (''search_field'', JStr ''projecttitle,terms,abstracttext''),
                                  (''search_text'', JStr s)])
                \<and> (\<forall>k. k \<noteq> ''text_search'' \<and> k \<noteq> ''advanced_text_search''
                       \<longrightarrow> map_of sc k = map_of (spread criteria) k)"
    if t: "truthy (Some t)" and s: "String_js t = Inr s" for s
  proof -
    from searchCriteria_rewritten [OF assms(4) t s]
    obtain sc where sc: "searchCriteria criteria = Inr sc"
      and gone: "map_of sc ''text_search'' = None"
      and clause: "map_of sc ''advanced_text_search''
                   = Some (JObj [(''operator'', JStr ''and''),
                                 (''search_field'', JStr ''projecttitle,terms,abstracttext''),
                                 (''search_text'', JStr s)])"
      and others: "\<forall>k. k \<noteq> ''text_search'' \<and> k \<noteq> ''advanced_text_search''
                     \<longrightarrow> map_of sc k = map_of (spread criteria) k"
      by blast
    from handleSearch_first_effect [OF assms(1,2) tr assms(3) sc, of c]
    obtain rest where
      "effects (snd (handleSearch c st (Some e) criteria))
       = effects st @ Fetch (nihRequest (nihPayload sc (maxAbstracts u))) # rest"
      by blast
    with gone clause others show ?thesis
      unfolding nihRequest_nihPayload by blast
  qed
  have thrown: "handleSearch c st (Some e) criteria
                = (error_response 500 (''Search failed: '' @ msg), st)"
    if t: "truthy (Some t)" and m: "String_js t = Inl msg" for msg
    using assms(1-3) tr searchCriteria_throws [OF assms(4) t m]
    by simp
  have untouched: "\<exists>rest.
               effects (snd (handleSearch c st (Some e) criteria))
                 = effects st
                   @ Fetch \<lparr>url = ''https://api.reporter.nih.gov/v2/projects/search'',
                            http_method = ''POST'',
                            headers = [(''Content-Type'', ''application/json'')],
                            payload = Some (JObj
                              [(''criteria'', JObj (spread criteria)),
                               (''sort_field'', JStr ''project_start_date''),
                               (''sort_order'', JStr ''desc''),
                               (''offset'', JNum 0),
                               (''limit'', JNum (if subscription_status u = ''active''
                                                then 10 else 3))])\<rparr>
                   # rest"
    if f: "\<not> truthy (Some t)"
  proof -
    from f assms(4) have "\<not> truthy (map_of (spread criteria) ''text_search'')"
      by simp
    then have sc: "searchCriteria criteria = Inr (spread criteria)"
      by (rule searchCriteria_untouched)
    from handleSearch_first_effect [OF assms(1,2) tr assms(3) sc, of c]
    show ?thesis
      unfolding nihRequest_nihPayload .
  qed
  have kept: "String_js t = Inr s" if "t = JStr s" for s
    using that by simp
  from rewritten thrown untouched kept show ?thesis
    by (intro conjI impI allI) (simp_all del: handleSearch.simps)
qed

theorem handleSearch_request_witness:
  "USERS_KV (store (alice 2)) ''a@x.com'' = Some (alice 2)
   \<and> monthly_searches (alice 2) < maxSearches (alice 2)
   \<and> map_of (spread (Some (JObj [(''advanced_text_search'', JStr ''mine''),
                                  (''text_search'', JStr ''cancer''),
                                  (''fy'', JNum 2024)]))) ''text_search''
      = Some (JStr ''cancer'')
   \<and> truthy (Some (JStr ''cancer''))
   \<and> String_js (JStr ''cancer'') = Inr ''cancer''
   \<and> (\<exists>sc rest.
         effects (snd (handleSearch (world (Failed ''down'') 201) (store (alice 2))
                   (Some ''a@x.com'')
                   (Some (JObj [(''advanced_text_search'', JStr ''mine''),
                                (''text_search'', JStr ''cancer''),
                                (''fy'', JNum 2024)]))))
         = Fetch \<lparr>url = ''https://api.reporter.nih.gov/v2/projects/search'',
                  http_method = ''POST'',
                  headers = [(''Content-Type'', ''application/json'')],
                  payload = Some (JObj
                    [(''criteria'', JObj sc),
                     (''sort_field'', JStr ''project_start_date''),
                     (''sort_order'', JStr ''desc''),
                     (''offset'', JNum 0),
                     (''limit'', JNum 3)])\<rparr> # rest
       \<and> map_of sc ''text_search'' = None
       \<and> map_of sc ''advanced_text_search''
           = Some (JObj [(''operator'', JStr ''and''),
                         (''search_field'', JStr ''projecttitle,terms,abstracttext''),
                         (''search_text'', JStr ''cancer'')])
       \<and> map_of sc ''fy'' = Some (JNum 2024))"
proof -
  let ?c = "world (Failed ''down'') 201"
  let ?crit = "Some (JObj [(''advanced_text_search'', JStr ''mine''),
                           (''text_search'', JStr ''cancer''),
                           (''fy'', JNum 2024)])"
  have kv: "USERS_KV (store (alice 2)) ''a@x.com'' = Some (alice 2)"
    by (simp add: store_def alice_def)
  have ne: "''a@x.com'' \<noteq> []"
    by simp
  have under: "monthly_searches (alice 2) < maxSearches (alice 2)"
    by (simp add: alice_def maxSearches_def isFreeTier_def)
  have ts: "map_of (spread ?crit) ''text_search'' = Some (JStr ''cancer'')"
    and fy: "map_of (spread ?crit) ''fy'' = Some (JNum 2024)"
    by simp_all
  have tr: "truthy (Some (JStr ''cancer''))"
    and str: "String_js (JStr ''cancer'') = Inr ''cancer''"
    by simp_all
  have free: "subscription_status (alice 2) \<noteq> ''active''"
    and empty: "effects (store (alice 2)) = []"
    by (simp_all add: alice_def store_def)
  from handleSearch_request [OF kv ne under ts, of ?c, THEN conjunct1, rule_format, OF tr,
      THEN conjunct1, rule_format, OF str]
  obtain sc rest where
    "effects (snd (handleSearch ?c (store (alice 2)) (Some ''a@x.com'') ?crit))
     = Fetch \<lparr>url = ''https://api.reporter.nih.gov/v2/projects/search'',
              http_method = ''POST'',
              headers = [(''Content-Type'', ''application/json'')],
              payload = Some (JObj
                [(''criteria'', JObj sc),
                 (''sort_field'', JStr ''project_start_date''),
                 (''sort_order'', JStr ''desc''),
                 (''offset'', JNum 0),
                 (''limit'', JNum 3)])\<rparr> # rest"
    and "map_of sc ''text_search'' = None"
    and "map_of sc ''advanced_text_search''
         = Some (JObj [(''operator'', JStr ''and''),
                       (''search_field'', JStr ''projecttitle,terms,abstracttext''),
                       (''search_text'', JStr ''cancer'')])"
    and "map_of sc ''fy'' = map_of (spread ?crit) ''fy''"
    unfolding empty using free by auto
  with kv under ts fy tr str show ?thesis
    by (simp del: handleSearch.simps)
qed

text \<open>
  C9 as stated fails where \<^verbatim>\<open>text_search\<close> is present and falsy. With the criteria
  \<^verbatim>\<open>{"text_search": ""}\<close> the request carries the free-text property unchanged and no
  compound clause.
\<close>

theorem handleSearch_request_counterexample:
  "effects (snd (handleSearch (world (Failed ''down'') 201) (store (alice 2))
             (Some ''a@x.com'') (Some (JObj [(''text_search'', JStr [])]))))
   = [Fetch \<lparr>url = ''https://api.reporter.nih.gov/v2/projects/search'',
             http_method = ''POST'',
             headers = [(''Content-Type'', ''application/json'')],
             payload = Some (JObj
               [(''criteria'', JObj [(''text_search'', JStr [])]),
                (''sort_field'', JStr ''project_start_date''),
                (''sort_order'', JStr ''desc''),
                (''offset'', JNum 0),
                (''limit'', JNum 3)])\<rparr>]"
  by (simp add: store_def alice_def maxSearches_def maxAbstracts_def isFreeTier_def
        searchCriteria_def nihRequest_def nihPayload_def do_fetch_def world_def Let_def)

section \<open>The monthly rollover\<close>

lemma handleLogin_rolls_over:
  assumes "USERS_KV st e = Some u" and "e \<noteq> []" and "password \<noteq> []"
    and "verifyPassword c password (password_hash u)"
    and "getMonth now \<noteq> getMonth (last_reset u) \<or> getFullYear now \<noteq> getFullYear (last_reset u)"
  shows "USERS_KV (snd (handleLogin c now st (Some e) (Some password))) e
         = Some (u\<lparr>monthly_searches := 0, last_reset := now\<rparr>)"
  using assms by (auto simp add: Let_def kv_put_def)

text \<open>
  C1 against the code. \<^verbatim>\<open>handleSearch\<close> reads neither the clock nor
  \<open>last_reset\<close>: whatever the request, a stored record keeps its \<open>last_reset\<close>, and
  its \<open>monthly_searches\<close> stays or goes up by one. The rollover of the month is made by
  \<^verbatim>\<open>handleLogin\<close> only.
\<close>

theorem handleSearch_never_rolls_over:
  assumes "USERS_KV st k = Some u"
  shows "\<exists>u'. USERS_KV (snd (handleSearch c st em criteria)) k = Some u'
            \<and> last_reset u' = last_reset u
            \<and> (monthly_searches u' = monthly_searches u
                \<or> monthly_searches u' = monthly_searches u + 1)"
proof -
  from handleSearch_store_cases [of c st em criteria]
  consider (same) "USERS_KV (snd (handleSearch c st em criteria)) = USERS_KV st"
    | (bumped) e v where "USERS_KV st e = Some v"
        "USERS_KV (snd (handleSearch c st em criteria))
         = (USERS_KV st)(e \<mapsto> v\<lparr>monthly_searches := monthly_searches v + 1\<rparr>)"
    by blast
  then show ?thesis
  proof cases
    case same
    with assms show ?thesis by simp
  next
    case bumped
    with assms show ?thesis by (cases "e = k") simp_all
  qed
qed

theorem handleSearch_never_rolls_over_witness:
  "USERS_KV (store (alice 5)) ''a@x.com'' = Some (alice 5)
   \<and> last_reset (alice 5) = jan15
   \<and> USERS_KV (snd (handleLogin (world (Fetched 200 (Inr two_results)) 201) feb01
                      (store (alice 5)) (Some ''a@x.com'') (Some ''pw''))) ''a@x.com''
      = Some ((alice 0)\<lparr>last_reset := feb01\<rparr>)
   \<and> handleSearch (world (Fetched 200 (Inr two_results)) 201) (store (alice 5))
        (Some ''a@x.com'') (Some (JObj [(''fy'', JNum 2024)]))
      = (limit_reached (alice 5), store (alice 5))
   \<and> USERS_KV (snd (handleSearch (world (Fetched 200 (Inr two_results)) 201) (store (alice 2))
                      (Some ''a@x.com'') (Some (JObj [(''fy'', JNum 2024)])))) ''a@x.com''
      = Some (alice 3)
   \<and> (\<exists>u'. USERS_KV (snd (handleSearch (world (Fetched 200 (Inr two_results)) 201)
                             (store (alice 5)) (Some ''a@x.com'')
                             (Some (JObj [(''fy'', JNum 2024)])))) ''a@x.com'' = Some u'
           \<and> last_reset u' = jan15)"
proof -
  let ?c = "world (Fetched 200 (Inr two_results)) 201"
  let ?crit = "Some (JObj [(''fy'', JNum 2024)])"
  have kv: "USERS_KV (store (alice 5)) ''a@x.com'' = Some (alice 5)"
    by (simp add: store_def alice_def)
  have lr: "last_reset (alice 5) = jan15"
    by (simp add: alice_def)
  have pw: "verifyPassword ?c ''pw'' (password_hash (alice 5))"
    by (simp add: verifyPassword_def hashPassword_def world_def alice_def)
  have month: "getMonth feb01 \<noteq> getMonth (last_reset (alice 5))
               \<or> getFullYear feb01 \<noteq> getFullYear (last_reset (alice 5))"
    by (simp add: getMonth_def feb01_def jan15_def alice_def)
  have "(alice 5)\<lparr>monthly_searches := 0, last_reset := feb01\<rparr> = (alice 0)\<lparr>last_reset := feb01\<rparr>"
    by (simp add: alice_def)
  with handleLogin_rolls_over [OF kv _ _ pw month]
  have login: "USERS_KV (snd (handleLogin ?c feb01 (store (alice 5)) (Some ''a@x.com'')
                                (Some ''pw''))) ''a@x.com''
               = Some ((alice 0)\<lparr>last_reset := feb01\<rparr>)"
    by (simp del: handleLogin.simps)
  have full: "handleSearch ?c (store (alice 5)) (Some ''a@x.com'') ?crit
              = (limit_reached (alice 5), store (alice 5))"
    using kv by (simp add: alice_def maxSearches_def isFreeTier_def)
  have part: "USERS_KV (snd (handleSearch ?c (store (alice 2)) (Some ''a@x.com'') ?crit))
                ''a@x.com'' = Some (alice 3)"
    by (simp add: store_def alice_def maxSearches_def maxAbstracts_def isFreeTier_def
          searchCriteria_def do_fetch_def world_def nihRequest_def ok_def two_results_def
          js_or_def Let_def kv_put_def sendSearchResultsEmail_store case_prod_beta
          split: sum.splits)
  from handleSearch_never_rolls_over [OF kv, of ?c "Some ''a@x.com''" ?crit]
  have "\<exists>u'. USERS_KV (snd (handleSearch ?c (store (alice 5)) (Some ''a@x.com'') ?crit))
               ''a@x.com'' = Some u' \<and> last_reset u' = jan15"
    unfolding lr by blast
  with kv lr login full part show ?thesis
    by (simp del: handleSearch.simps handleLogin.simps)
qed

end
